theory Spec2Isabelle
  imports Main "HOL-Library.Word" "HOL-Library.Sublist"
begin

unbundle bit_operations_syntax

section \<open>Utility VMs for Windows containers: the model of wcow\_uvm.go\<close>

text \<open>
  The file \<^verbatim>\<open>vendor/github.com/Microsoft/hcsshim/wcow_uvm.go\<close> holds four functions:
  \<^verbatim>\<open>CreateWCOWUVMSandbox\<close>, \<^verbatim>\<open>UVMResourcesFromContainerSpec\<close>,
  \<^verbatim>\<open>LocateWCOWUVMFolderFromLayerFolders\<close> and the unexported \<^verbatim>\<open>createWCOWv2UVM\<close>.
  Go pointers that may be nil are \<open>option\<close>s, Go's unsigned and signed machine integers are
  words, and every way a function can end (a value, an error, a nil dereference) is a
  constructor of \<open>result\<close>.
\<close>

subsection \<open>Machine integers, errors, results\<close>

type_synonym uint16 = "16 word"
type_synonym uint64 = "64 word"
type_synonym int32 = "32 word"

text \<open>
  An \<^verbatim>\<open>error\<close> value carries its message. \<open>Errorf\<close> is an error made by
  \<^verbatim>\<open>fmt.Errorf\<close>; \<open>ErrNotExist\<close> is an error of the \<^verbatim>\<open>os\<close> package that
  \<^verbatim>\<open>os.IsNotExist\<close> recognises; \<open>ErrOther\<close> is any other error of a collaborator
  (a permission error, a failed copy).
\<close>

datatype error = Errorf string | ErrNotExist string | ErrOther string

fun Error :: "error \<Rightarrow> string" where
  "Error (Errorf s) = s"
| "Error (ErrNotExist s) = s"
| "Error (ErrOther s) = s"

text \<open>\<^verbatim>\<open>os.IsNotExist(err)\<close>; a nil error is \<open>None\<close> and is not a not-exist error.\<close>

fun IsNotExist :: "error option \<Rightarrow> bool" where
  "IsNotExist (Some (ErrNotExist s)) = True"
| "IsNotExist _ = False"

text \<open>
  How a Go function ends: \<open>Return v\<close> is \<^verbatim>\<open>return v, nil\<close>, \<open>Fail e\<close> is
  \<^verbatim>\<open>return nil, e\<close>, and \<open>Panic\<close> is a run-time panic (here always a nil pointer
  dereference).
\<close>

datatype 'a result = Return 'a | Fail error | Panic

text \<open>The path separator of Windows, which a string literal cannot hold.\<close>

definition backslash :: string where
  "backslash = [CHR 0x5C]"

subsection \<open>The OCI runtime specification (the fields the code reads)\<close>

record WindowsMemoryResources =
  Limit :: "uint64 option"

record WindowsCPUResources =
  Count :: "uint64 option"
  Shares :: "uint16 option"
  Maximum :: "uint16 option"

record WindowsStorageResources =
  Iops :: "uint64 option"
  Bps :: "uint64 option"
  SandboxSize :: "uint64 option"

record WindowsResources =
  Memory :: "WindowsMemoryResources option"
  CPU :: "WindowsCPUResources option"
  Storage :: "WindowsStorageResources option"

record WindowsNetwork =
  EndpointList :: "string list"
  NetworkSharedContainerName :: string

record Windows =
  LayerFolders :: "string list"
  Resources :: "WindowsResources option"
  CredentialSpec :: "string option"
  Network :: "WindowsNetwork option"

record Root =
  Path :: string
  Readonly :: bool

record Mount =
  Destination :: string
  Source :: string

record Linux =
  CgroupsPath :: string

record Spec =
  Root :: "Root option"
  Hostname :: string
  Mounts :: "Mount list"
  Linux :: "Linux option"
  Windows :: "Windows option"

subsection \<open>The v2 schema document of a virtual machine\<close>

record SchemaVersion =
  Major :: int32
  Minor :: int32

record VirtualMachinesResourcesStorageAttachmentV2 =
  Path :: string
  Type :: string

record VirtualMachinesResourcesStorageScsiV2 =
  Attachments :: "string \<rightharpoonup> VirtualMachinesResourcesStorageAttachmentV2"

record VirtualMachinesResourcesUefiBootEntryV2 =
  DevicePath :: string
  DiskNumber :: int32
  UefiDevice :: string

record VirtualMachinesResourcesUefiV2 =
  BootThis :: "VirtualMachinesResourcesUefiBootEntryV2 option"

record VirtualMachinesResourcesChipsetV2 =
  UEFI :: "VirtualMachinesResourcesUefiV2 option"

record VirtualMachinesResourcesComputeMemoryV2 =
  Backing :: string
  Startup :: int32
  DirectFileMappingMB :: int

record VirtualMachinesResourcesComputeProcessorV2 =
  Count :: int32

record VirtualMachinesResourcesComputeTopologyV2 =
  Memory :: "VirtualMachinesResourcesComputeMemoryV2 option"
  Processor :: "VirtualMachinesResourcesComputeProcessorV2 option"

record VirtualMachinesResourcesStorageVSmbShareV2 =
  Flags :: int32
  Name :: string
  Path :: string

record VirtualMachinesResourcesGuestInterfaceV2 =
  ConnectToBridge :: bool

record VirtualMachinesDevicesV2 =
  SCSI :: "string \<rightharpoonup> VirtualMachinesResourcesStorageScsiV2"
  VirtualSMBShares :: "VirtualMachinesResourcesStorageVSmbShareV2 list"
  GuestInterface :: "VirtualMachinesResourcesGuestInterfaceV2 option"

record VirtualMachineV2 =
  Chipset :: "VirtualMachinesResourcesChipsetV2 option"
  ComputeTopology :: "VirtualMachinesResourcesComputeTopologyV2 option"
  Devices :: "VirtualMachinesDevicesV2 option"

record ComputeSystemV2 =
  Owner :: string
  SchemaVersion :: "SchemaVersion option"
  VirtualMachine :: "VirtualMachineV2 option"

subsection \<open>The caller's options and the container handle\<close>

record createOptionsExInternal =
  Spec :: "Spec option"
  actualId :: string
  actualOwner :: string
  actualSchemaVersion :: "SchemaVersion option"

text \<open>
  Of the handle, the two fields that \<^verbatim>\<open>createWCOWv2UVM\<close> writes:
  \<^verbatim>\<open>scsiLocations.hostPath\<close>, a table indexed by controller and slot, and
  \<^verbatim>\<open>operatingSystem\<close>. What \<^verbatim>\<open>createContainer\<close> returns is taken to be the
  package's own \<^verbatim>\<open>*container\<close>, as the type assertions of lines 226 and 227 expect.
\<close>

record container =
  hostPath :: "nat \<times> nat \<Rightarrow> string"
  operatingSystem :: string

subsection \<open>The collaborators\<close>

text \<open>
  What the file calls and does not define: the logical processor count of the host, the
  standard library's \<^verbatim>\<open>filepath.Join\<close>, \<^verbatim>\<open>os.Stat\<close>, \<^verbatim>\<open>os.MkdirAll\<close> and
  \<^verbatim>\<open>json.Marshal\<close>, the package's \<^verbatim>\<open>CopyFile\<close>, \<^verbatim>\<open>GrantVmAccess\<close> and
  \<^verbatim>\<open>createContainer\<close>, the value of \<^verbatim>\<open>schemaversion.SchemaV20()\<close> and the five
  flag constants of the schema package. They are parameters of the model; a call that
  returns a nil error returns \<open>None\<close>.
\<close>

record env =
  numCPU :: int
  Join :: "string \<Rightarrow> string \<Rightarrow> string"
  Stat :: "string \<Rightarrow> error option"
  MkdirAll :: "string \<Rightarrow> nat \<Rightarrow> error option"
  CopyFile :: "string \<Rightarrow> string \<Rightarrow> bool \<Rightarrow> error option"
  GrantVmAccess :: "string \<Rightarrow> string \<Rightarrow> error option"
  Marshal :: "ComputeSystemV2 \<Rightarrow> error + string"
  createContainer :: "string \<Rightarrow> string \<Rightarrow> SchemaVersion \<Rightarrow> error + container"
  SchemaV20 :: SchemaVersion
  VsmbFlagReadOnly :: int32
  VsmbFlagPseudoOplocks :: int32
  VsmbFlagTakeBackupPrivilege :: int32
  VsmbFlagCacheIO :: int32
  VsmbFlagShareRead :: int32

text \<open>
  The calls a run makes to the collaborators that touch the file system or the host
  compute service, in the order it makes them.
\<close>

datatype event =
    EvStat string
  | EvMkdirAll string nat
  | EvCopyFile string string bool
  | EvGrantVmAccess string string
  | EvCreateContainer string ComputeSystemV2 string SchemaVersion

text \<open>Sequencing: the second step runs only when the first one returned a value.\<close>

definition andThen ::
  "event list \<times> 'a result \<Rightarrow> ('a \<Rightarrow> event list \<times> 'b result) \<Rightarrow> event list \<times> 'b result"
where
  "andThen m f =
     (case m of
        (tr, Return x) \<Rightarrow> (case f x of (tr', r) \<Rightarrow> (tr @ tr', r))
      | (tr, Fail e) \<Rightarrow> (tr, Fail e)
      | (tr, Panic) \<Rightarrow> (tr, Panic))"

subsection \<open>CreateWCOWUVMSandbox (lines 21 to 32)\<close>

definition CreateWCOWUVMSandbox ::
  "env \<Rightarrow> string \<Rightarrow> string \<Rightarrow> string \<Rightarrow> event list \<times> unit result"
where
  "CreateWCOWUVMSandbox env imagePath destDirectory vmID =
     (let sourceSandbox =
            Join env imagePath (''UtilityVM'' @ backslash @ ''SystemTemplate.vhdx'');
          targetSandbox = Join env destDirectory ''sandbox.vhdx''
      in case CopyFile env sourceSandbox targetSandbox True of
           Some err \<Rightarrow> ([EvCopyFile sourceSandbox targetSandbox True], Fail err)
         | None \<Rightarrow>
             (case GrantVmAccess env vmID targetSandbox of
                Some err \<Rightarrow>
                  ([EvCopyFile sourceSandbox targetSandbox True,
                    EvGrantVmAccess vmID targetSandbox], Fail err)
              | None \<Rightarrow>
                  ([EvCopyFile sourceSandbox targetSandbox True,
                    EvGrantVmAccess vmID targetSandbox], Return ())))"

subsection \<open>UVMResourcesFromContainerSpec (lines 39 to 78)\<close>

text \<open>
  Line 42 reads \<^verbatim>\<open>spec == nil && spec.Linux != nil\<close>: with a nil \<^verbatim>\<open>spec\<close> the left
  operand holds and the right one dereferences nil; with a non-nil \<^verbatim>\<open>spec\<close> the left
  operand is false and the conjunction with it.
  \<^verbatim>\<open>uvmResources.CPU.Count\<close> points at the variable \<^verbatim>\<open>uvmCPUCount\<close>, so the count
  returned is the variable's last value. Line 62 reads
  \<^verbatim>\<open>spec.Windows.Resources.Memory.Limit\<close> with no test of \<^verbatim>\<open>Memory\<close>.
  The arithmetic of lines 63 to 72 is that of \<^verbatim>\<open>uint64\<close>.
\<close>

definition UVMResourcesFromContainerSpec ::
  "env \<Rightarrow> Spec option \<Rightarrow> WindowsResources result"
where
  "UVMResourcesFromContainerSpec env spec =
     (case spec of
        None \<Rightarrow> Panic
      | Some s \<Rightarrow>
          if spec = None \<and> Linux s \<noteq> None
          then Fail (Errorf ''UVMResourcesFromContainerSpec not supported for LCOW yet'')
          else if spec = None \<or> Windows s = None then Fail (Errorf ''invalid spec'')
          else
            (let w = the (Windows s);
                 uvmCPUCount = (2 :: uint64);
                 uvmMemoryMB = (512 :: uint64);
                 uvmCPUCount = (if numCPU env = 1 then 1 else uvmCPUCount);
                 finish = (\<lambda>uvmCPUCount uvmMemoryMB.
                   let uvmMemoryMB = uvmMemoryMB + 256;
                       uvmMemoryMB =
                         (if uvmMemoryMB mod 512 > 0
                          then uvmMemoryMB + (512 - (uvmMemoryMB mod 512))
                          else uvmMemoryMB);
                       uvmMemoryBytes = uvmMemoryMB * 1024 * 1024
                   in Return
                        \<lparr>WindowsResources.Memory = Some \<lparr>Limit = Some uvmMemoryBytes\<rparr>,
                         CPU = Some \<lparr>WindowsCPUResources.Count = Some uvmCPUCount,
                                     Shares = None, Maximum = None\<rparr>,
                         Storage = None\<rparr>)
             in case Resources w of
                  None \<Rightarrow> finish uvmCPUCount uvmMemoryMB
                | Some r \<Rightarrow>
                    (let uvmCPUCount =
                           (case CPU r of
                              None \<Rightarrow> uvmCPUCount
                            | Some c \<Rightarrow>
                                (case WindowsCPUResources.Count c of
                                   None \<Rightarrow> uvmCPUCount
                                 | Some n \<Rightarrow> n))
                     in case WindowsResources.Memory r of
                          None \<Rightarrow> Panic
                        | Some m \<Rightarrow>
                            (case Limit m of
                               None \<Rightarrow> finish uvmCPUCount uvmMemoryMB
                             | Some l \<Rightarrow> finish uvmCPUCount (l div 1024 div 1024)))))"

subsection \<open>LocateWCOWUVMFolderFromLayerFolders (lines 85 to 104)\<close>

text \<open>
  The loop of lines 88 to 98. It ends in one of three ways: \<^verbatim>\<open>break\<close> with the folder
  found (\<open>Inr\<close> of it), \<^verbatim>\<open>return "", err\<close> (\<open>Inl\<close>), or the end of the list with
  \<^verbatim>\<open>uvmFolder\<close> still the empty string (\<open>Inr\<close> of it). Each round calls
  \<^verbatim>\<open>os.Stat\<close> once.
\<close>

fun LocateWCOWUVMFolderFromLayerFolders_loop ::
  "env \<Rightarrow> string list \<Rightarrow> event list \<times> (error + string)"
where
  "LocateWCOWUVMFolderFromLayerFolders_loop env [] = ([], Inr '''')"
| "LocateWCOWUVMFolderFromLayerFolders_loop env (layerFolder # rest) =
     (let p = Join env layerFolder ''UtilityVM'';
          err = Stat env p
      in if err = None then ([EvStat p], Inr layerFolder)
         else if \<not> IsNotExist err then ([EvStat p], Inl (the err))
         else (case LocateWCOWUVMFolderFromLayerFolders_loop env rest of
                 (tr, r) \<Rightarrow> (EvStat p # tr, r)))"

definition LocateWCOWUVMFolderFromLayerFolders ::
  "env \<Rightarrow> string list \<Rightarrow> event list \<times> string result"
where
  "LocateWCOWUVMFolderFromLayerFolders env layerFolders =
     (case LocateWCOWUVMFolderFromLayerFolders_loop env layerFolders of
        (tr, Inl err) \<Rightarrow> (tr, Fail err)
      | (tr, Inr uvmFolder) \<Rightarrow>
          if uvmFolder = ''''
          then (tr, Fail (Errorf ''utility VM folder could not be found in layers''))
          else (tr, Return uvmFolder))"

subsection \<open>createWCOWv2UVM (lines 106 to 229)\<close>

text \<open>
  Lines 109 to 136: the checks of the specification, in the order of the source. The first
  one reads \<^verbatim>\<open>coi.Spec.Windows.LayerFolders\<close> with no test of \<^verbatim>\<open>coi.Spec\<close> or of
  \<^verbatim>\<open>coi.Spec.Windows\<close>. \<open>Return ()\<close> means that no check returned.
\<close>

definition iocis :: string where
  "iocis = ''invalid OCI spec:''"

definition createWCOWv2UVM_checks :: "createOptionsExInternal \<Rightarrow> unit result" where
  "createWCOWv2UVM_checks coi =
     (case Spec coi of
        None \<Rightarrow> Panic
      | Some spec \<Rightarrow>
          (case Windows spec of
             None \<Rightarrow> Panic
           | Some w \<Rightarrow>
               if length (LayerFolders w) < 2 then
                 Fail (Errorf (iocis @
                   '' Windows.LayerFolders must have length of at least 2 for a hosting system''))
               else if length (Hostname spec) > 0 then
                 Fail (Errorf (iocis @ '' Hostname cannot be set for a hosting system''))
               else if Resources w \<noteq> None \<and> CPU (the (Resources w)) \<noteq> None
                       \<and> Shares (the (CPU (the (Resources w)))) \<noteq> None then
                 Fail (Errorf (iocis @
                   '' Windows.Resources.CPU.Shares must not be set for a hosting system''))
               else if Resources w \<noteq> None \<and> CPU (the (Resources w)) \<noteq> None
                       \<and> Maximum (the (CPU (the (Resources w)))) \<noteq> None then
                 Fail (Errorf (iocis @
                   '' Windows.Resources.CPU.Maximum must not be set for a hosting system''))
               else if Root spec \<noteq> None then
                 Fail (Errorf (iocis @ '' Root must not be set for a hosting system''))
               else if Resources w \<noteq> None \<and> Storage (the (Resources w)) \<noteq> None then
                 Fail (Errorf (iocis @
                   '' Windows.Resources.Storage must not be set for a hosting system''))
               else if CredentialSpec w \<noteq> None then
                 Fail (Errorf (iocis @
                   '' Windows.CredentialSpec must not be set for a hosting system''))
               else if Network w \<noteq> None then
                 Fail (Errorf (iocis @ '' Windows.Network must not be set for a hosting system''))
               else if 0 \<noteq> length (Mounts spec) then
                 Fail (Errorf (iocis @ '' Mounts must not be set for a hosting system''))
               else Return ()))"

text \<open>
  Lines 167 to 179: memory in MB and processor count of the virtual machine, both
  \<^verbatim>\<open>int32\<close>; the conversions \<^verbatim>\<open>int32(...)\<close> of a \<^verbatim>\<open>uint64\<close> keep the low 32 bits.
\<close>

definition createWCOWv2UVM_resources :: "env \<Rightarrow> Windows \<Rightarrow> int32 \<times> int32" where
  "createWCOWv2UVM_resources env w =
     (let memory = (1024 :: int32);
          processors = (2 :: int32);
          processors = (if numCPU env = 1 then 1 else processors)
      in case Resources w of
           None \<Rightarrow> (memory, processors)
         | Some r \<Rightarrow>
             (let memory =
                    (case WindowsResources.Memory r of
                       None \<Rightarrow> memory
                     | Some m \<Rightarrow>
                         (case Limit m of
                            None \<Rightarrow> memory
                          | Some l \<Rightarrow> ucast (l div 1024 div 1024)));
                  processors =
                    (case CPU r of
                       None \<Rightarrow> processors
                     | Some c \<Rightarrow>
                         (case WindowsCPUResources.Count c of
                            None \<Rightarrow> processors
                          | Some n \<Rightarrow> ucast n))
              in (memory, processors)))"

text \<open>Lines 160 to 166 and 180 to 215: the document handed to the compute service.\<close>

definition createWCOWv2UVM_attachments ::
  "env \<Rightarrow> string \<Rightarrow> string \<rightharpoonup> VirtualMachinesResourcesStorageAttachmentV2"
where
  "createWCOWv2UVM_attachments env sandboxFolder =
     [''0'' \<mapsto> \<lparr>VirtualMachinesResourcesStorageAttachmentV2.Path =
                     Join env sandboxFolder ''sandbox.vhdx'',
                   Type = ''VirtualDisk''\<rparr>]"

definition createWCOWv2UVM_document ::
  "env \<Rightarrow> createOptionsExInternal \<Rightarrow> string \<Rightarrow> string \<Rightarrow> int32 \<Rightarrow> int32 \<Rightarrow> ComputeSystemV2"
where
  "createWCOWv2UVM_document env coi sandboxFolder uvmFolder memory processors =
     (let attachments = createWCOWv2UVM_attachments env sandboxFolder;
          scsi = [''0'' \<mapsto> \<lparr>Attachments = attachments\<rparr>]
      in \<lparr>Owner = actualOwner coi,
          SchemaVersion = actualSchemaVersion coi,
          VirtualMachine = Some
            \<lparr>Chipset = Some
               \<lparr>UEFI = Some
                  \<lparr>BootThis = Some
                     \<lparr>DevicePath = backslash @ ''EFI'' @ backslash @ ''Microsoft''
                                     @ backslash @ ''Boot'' @ backslash @ ''bootmgfw.efi'',
                      DiskNumber = 0,
                      UefiDevice = ''VMBFS''\<rparr>\<rparr>\<rparr>,
             ComputeTopology = Some
               \<lparr>Memory = Some
                  \<lparr>Backing = ''Virtual'',
                   Startup = memory,
                   DirectFileMappingMB = 1024\<rparr>,
                Processor = Some \<lparr>Count = processors\<rparr>\<rparr>,
             Devices = Some
               \<lparr>SCSI = scsi,
                VirtualSMBShares =
                  [\<lparr>Flags = VsmbFlagReadOnly env OR VsmbFlagPseudoOplocks env
                             OR VsmbFlagTakeBackupPrivilege env OR VsmbFlagCacheIO env
                             OR VsmbFlagShareRead env,
                    Name = ''os'',
                    Path = Join env uvmFolder (''UtilityVM'' @ backslash @ ''Files'')\<rparr>],
                GuestInterface = Some \<lparr>ConnectToBridge = True\<rparr>\<rparr>\<rparr>\<rparr>)"

text \<open>
  Lines 147 to 153: the sandbox folder is made when \<^verbatim>\<open>os.Stat\<close> says it does not
  exist; any other answer of \<^verbatim>\<open>os.Stat\<close> is passed over. \<^verbatim>\<open>0777\<close> is 511.
\<close>

definition createWCOWv2UVM_sandboxFolder :: "env \<Rightarrow> string \<Rightarrow> event list \<times> unit result"
where
  "createWCOWv2UVM_sandboxFolder env sandboxFolder =
     (if IsNotExist (Stat env sandboxFolder) then
        (case MkdirAll env sandboxFolder 511 of
           Some err \<Rightarrow>
             ([EvStat sandboxFolder, EvMkdirAll sandboxFolder 511],
              Fail (Errorf (''failed to create utility VM sandbox folder: '' @ Error err)))
         | None \<Rightarrow> ([EvStat sandboxFolder, EvMkdirAll sandboxFolder 511], Return ()))
      else ([EvStat sandboxFolder], Return ()))"

text \<open>
  Lines 160 to 228 after the sandbox is there: the document is built, marshalled and
  handed to \<^verbatim>\<open>createContainer\<close>, and the handle that comes back is completed.
\<close>

definition createWCOWv2UVM_create ::
  "env \<Rightarrow> createOptionsExInternal \<Rightarrow> Windows \<Rightarrow> string \<Rightarrow> string
     \<Rightarrow> event list \<times> container result"
where
  "createWCOWv2UVM_create env coi w sandboxFolder uvmFolder =
     (let attachments = createWCOWv2UVM_attachments env sandboxFolder;
          (memory, processors) = createWCOWv2UVM_resources env w;
          uvm = createWCOWv2UVM_document env coi sandboxFolder uvmFolder memory processors
      in case Marshal env uvm of
           Inl err \<Rightarrow> ([], Fail err)
         | Inr uvmb \<Rightarrow>
             (case createContainer env (actualId coi) uvmb (SchemaV20 env) of
                Inl err \<Rightarrow>
                  ([EvCreateContainer (actualId coi) uvm uvmb (SchemaV20 env)], Fail err)
              | Inr uvmContainer \<Rightarrow>
                  ([EvCreateContainer (actualId coi) uvm uvmb (SchemaV20 env)],
                   Return (uvmContainer
                     \<lparr>hostPath := (hostPath uvmContainer)
                        ((0, 0) := VirtualMachinesResourcesStorageAttachmentV2.Path
                                     (the (attachments ''0''))),
                      operatingSystem := ''windows''\<rparr>))))"

text \<open>
  \<^verbatim>\<open>if err != nil { return nil, fmt.Errorf("...: %s", err) }\<close>: an error of the step is
  returned under a prefix.
\<close>

definition wrapError :: "string \<Rightarrow> event list \<times> 'a result \<Rightarrow> event list \<times> 'a result" where
  "wrapError msg m =
     (case m of
        (tr, Fail err) \<Rightarrow> (tr, Fail (Errorf (msg @ Error err)))
      | (tr, Return x) \<Rightarrow> (tr, Return x)
      | (tr, Panic) \<Rightarrow> (tr, Panic))"

text \<open>
  The whole function. After the checks \<^verbatim>\<open>coi.Spec\<close> and \<^verbatim>\<open>coi.Spec.Windows\<close> are
  not nil and the layer folders are at least two, so the index of line 144 is in range.
\<close>

definition createWCOWv2UVM :: "env \<Rightarrow> createOptionsExInternal \<Rightarrow> event list \<times> container result"
where
  "createWCOWv2UVM env coi =
     andThen ([], createWCOWv2UVM_checks coi) (\<lambda>_.
     let w = the (Windows (the (Spec coi)));
         layerFolders = LayerFolders w
     in
     andThen
       (wrapError ''failed to locate utility VM folder from layer folders: ''
          (LocateWCOWUVMFolderFromLayerFolders env layerFolders)) (\<lambda>uvmFolder.
     let sandboxFolder = layerFolders ! (length layerFolders - 1) in
     andThen (createWCOWv2UVM_sandboxFolder env sandboxFolder) (\<lambda>_.
     andThen
       (wrapError ''failed to create UVM sandbox: ''
          (CreateWCOWUVMSandbox env uvmFolder sandboxFolder (actualId coi))) (\<lambda>_.
     createWCOWv2UVM_create env coi w sandboxFolder uvmFolder))))"

subsection \<open>Vocabulary of the specification\<close>

text \<open>
  The path whose existence marks a layer folder as carrying a utility VM image, and the
  \<^verbatim>\<open>os.Stat\<close> calls of a scan over some folders.
\<close>

definition marker :: "env \<Rightarrow> string \<Rightarrow> string" where
  "marker env layerFolder = Join env layerFolder ''UtilityVM''"

definition scanned :: "env \<Rightarrow> string list \<Rightarrow> event list" where
  "scanned env layerFolders = map (\<lambda>f. EvStat (marker env f)) layerFolders"

text \<open>The memory limit in bytes and the processor count that a specification states, if any.\<close>

definition specMemoryLimit :: "Windows \<Rightarrow> uint64 option" where
  "specMemoryLimit w =
     (case Resources w of
        None \<Rightarrow> None
      | Some r \<Rightarrow> (case WindowsResources.Memory r of None \<Rightarrow> None | Some m \<Rightarrow> Limit m))"

definition specCPUCount :: "Windows \<Rightarrow> uint64 option" where
  "specCPUCount w =
     (case Resources w of
        None \<Rightarrow> None
      | Some r \<Rightarrow> (case CPU r of None \<Rightarrow> None | Some c \<Rightarrow> WindowsCPUResources.Count c))"

text \<open>The resource block is there and its memory block is not.\<close>

definition memoryBlockMissing :: "Windows \<Rightarrow> bool" where
  "memoryBlockMissing w =
     (case Resources w of None \<Rightarrow> False | Some r \<Rightarrow> WindowsResources.Memory r = None)"

text \<open>Round up to the next multiple of 512.\<close>

definition roundUp512 :: "nat \<Rightarrow> nat" where
  "roundUp512 n = ((n + 511) div 512) * 512"

text \<open>CPU shares, a CPU maximum, storage limits stated by a specification.\<close>

definition hasCPUShares :: "Windows \<Rightarrow> bool" where
  "hasCPUShares w =
     (case Resources w of
        None \<Rightarrow> False
      | Some r \<Rightarrow> (case CPU r of None \<Rightarrow> False | Some c \<Rightarrow> Shares c \<noteq> None))"

definition hasCPUMaximum :: "Windows \<Rightarrow> bool" where
  "hasCPUMaximum w =
     (case Resources w of
        None \<Rightarrow> False
      | Some r \<Rightarrow> (case CPU r of None \<Rightarrow> False | Some c \<Rightarrow> Maximum c \<noteq> None))"

definition hasStorage :: "Windows \<Rightarrow> bool" where
  "hasStorage w =
     (case Resources w of None \<Rightarrow> False | Some r \<Rightarrow> Storage r \<noteq> None)"

text \<open>
  The megabytes that \<^verbatim>\<open>UVMResourcesFromContainerSpec\<close> starts from: the stated limit
  in whole megabytes, or 512, the initial value of \<^verbatim>\<open>uvmMemoryMB\<close> (line 50).
\<close>

definition planningBaseMB :: "Windows \<Rightarrow> nat" where
  "planningBaseMB w =
     (case specMemoryLimit w of None \<Rightarrow> 512 | Some l \<Rightarrow> unat l div 1048576)"

text \<open>The nine reasons for which a specification is rejected, as the caller reads them.\<close>

definition reasonLayerFolders :: string where
  "reasonLayerFolders =
     ''invalid OCI spec: Windows.LayerFolders must have length of at least 2 for a hosting system''"

definition reasonHostname :: string where
  "reasonHostname = ''invalid OCI spec: Hostname cannot be set for a hosting system''"

definition reasonCPUShares :: string where
  "reasonCPUShares =
     ''invalid OCI spec: Windows.Resources.CPU.Shares must not be set for a hosting system''"

definition reasonCPUMaximum :: string where
  "reasonCPUMaximum =
     ''invalid OCI spec: Windows.Resources.CPU.Maximum must not be set for a hosting system''"

definition reasonRoot :: string where
  "reasonRoot = ''invalid OCI spec: Root must not be set for a hosting system''"

definition reasonStorage :: string where
  "reasonStorage =
     ''invalid OCI spec: Windows.Resources.Storage must not be set for a hosting system''"

definition reasonCredentialSpec :: string where
  "reasonCredentialSpec =
     ''invalid OCI spec: Windows.CredentialSpec must not be set for a hosting system''"

definition reasonNetwork :: string where
  "reasonNetwork = ''invalid OCI spec: Windows.Network must not be set for a hosting system''"

definition reasonMounts :: string where
  "reasonMounts = ''invalid OCI spec: Mounts must not be set for a hosting system''"

subsection \<open>A host and specifications to run the model on\<close>

text \<open>
  A host with \<open>n\<close> logical processors whose file system answers \<^verbatim>\<open>os.Stat\<close> by
  \<open>st\<close>, where every other call succeeds. Its \<open>Join\<close> is \<^verbatim>\<open>filepath.Join\<close> on
  two clean elements: an empty element is dropped, the separator is a backslash.
\<close>

definition host :: "int \<Rightarrow> (string \<Rightarrow> error option) \<Rightarrow> env" where
  "host n st =
     \<lparr>numCPU = n,
      Join = (\<lambda>dir name. if dir = [] then name else dir @ backslash @ name),
      Stat = st,
      MkdirAll = (\<lambda>_ _. None),
      CopyFile = (\<lambda>_ _ _. None),
      GrantVmAccess = (\<lambda>_ _. None),
      Marshal = (\<lambda>_. Inr ''{}''),
      createContainer = (\<lambda>_ _ _. Inr \<lparr>hostPath = (\<lambda>_. []), operatingSystem = []\<rparr>),
      SchemaV20 = \<lparr>Major = 2, Minor = 0\<rparr>,
      VsmbFlagReadOnly = 1,
      VsmbFlagPseudoOplocks = 16384,
      VsmbFlagTakeBackupPrivilege = 16,
      VsmbFlagCacheIO = 4,
      VsmbFlagShareRead = 2\<rparr>"

text \<open>
  A file system in which the paths of \<open>denied\<close> cannot be read, the paths of
  \<open>present\<close> exist and no other path does.
\<close>

definition fileSystem :: "string list \<Rightarrow> string list \<Rightarrow> string \<Rightarrow> error option" where
  "fileSystem present denied p =
     (if p \<in> set denied then Some (ErrOther ''Access is denied.'')
      else if p \<in> set present then None
      else Some (ErrNotExist ''The system cannot find the file specified.''))"

text \<open>A specification with the given layer folders and resources and nothing else.\<close>

definition windowsOf :: "string list \<Rightarrow> WindowsResources option \<Rightarrow> Windows" where
  "windowsOf layerFolders res =
     \<lparr>LayerFolders = layerFolders, Resources = res, CredentialSpec = None, Network = None\<rparr>"

definition specOf :: "Windows option \<Rightarrow> Spec" where
  "specOf w = \<lparr>Root = None, Hostname = [], Mounts = [], Linux = None, Windows = w\<rparr>"

definition optionsOf :: "Spec option \<Rightarrow> createOptionsExInternal" where
  "optionsOf s =
     \<lparr>Spec = s, actualId = ''uvm'', actualOwner = ''owner'', actualSchemaVersion = None\<rparr>"

definition memoryOf :: "uint64 option \<Rightarrow> WindowsResources" where
  "memoryOf l = \<lparr>WindowsResources.Memory = Some \<lparr>Limit = l\<rparr>, CPU = None, Storage = None\<rparr>"

definition countOf :: "uint64 \<Rightarrow> WindowsResources" where
  "countOf n =
     \<lparr>WindowsResources.Memory = Some \<lparr>Limit = None\<rparr>,
      CPU = Some \<lparr>WindowsCPUResources.Count = Some n, Shares = None, Maximum = None\<rparr>,
      Storage = None\<rparr>"

text \<open>
  Three layer folders \<open>A\<close>, \<open>B\<close> and \<open>S\<close>, the last one the sandbox folder, on a host
  where \<open>B\<close> carries the utility VM image and \<open>S\<close> exists.
\<close>

definition threeLayers :: createOptionsExInternal where
  "threeLayers = optionsOf (Some (specOf (Some (windowsOf [''A'', ''B'', ''S''] None))))"

definition imageInB :: env where
  "imageInB = host 2 (fileSystem [''B'' @ backslash @ ''UtilityVM'', ''S''] [])"

section \<open>Properties\<close>

subsection \<open>Sequencing\<close>

lemma andThen_ReturnE:
  assumes "andThen m f = (tr, Return y)"
  obtains tr1 x tr2 where "m = (tr1, Return x)" "f x = (tr2, Return y)" "tr = tr1 @ tr2"
  using assms by (auto simp: andThen_def split: prod.splits result.splits)

lemma andThen_Panic:
  "snd (andThen m f) = Panic \<longleftrightarrow>
     snd m = Panic \<or> (\<exists>tr x. m = (tr, Return x) \<and> snd (f x) = Panic)"
  by (auto simp: andThen_def split: prod.splits result.splits)

lemma wrapError_Return: "wrapError p m = (tr, Return x) \<longleftrightarrow> m = (tr, Return x)"
  by (auto simp: wrapError_def split: prod.splits result.splits)

lemma wrapError_Panic: "snd (wrapError p m) = Panic \<longleftrightarrow> snd m = Panic"
  by (auto simp: wrapError_def split: prod.splits result.splits)

subsection \<open>The scan of the layer folders\<close>

text \<open>
  Over folders whose marker \<^verbatim>\<open>os.Stat\<close> reports as not existing the loop goes on: it
  calls \<^verbatim>\<open>os.Stat\<close> once for each and then does what it does on the rest.
\<close>

lemma loop_notexist_prefix:
  "\<forall>g\<in>set pre. IsNotExist (Stat env (marker env g)) \<Longrightarrow>
   LocateWCOWUVMFolderFromLayerFolders_loop env (pre @ rest) =
     (case LocateWCOWUVMFolderFromLayerFolders_loop env rest of
        (tr, r) \<Rightarrow> (scanned env pre @ tr, r))"
proof (induction pre)
  case Nil
  then show ?case by (simp add: scanned_def)
next
  case (Cons g pre)
  then have ne: "IsNotExist (Stat env (Join env g ''UtilityVM''))"
    by (simp add: marker_def)
  then have "Stat env (Join env g ''UtilityVM'') \<noteq> None"
    by (cases "Stat env (Join env g ''UtilityVM'')") auto
  with ne Cons show ?case
    by (simp add: scanned_def marker_def Let_def split: prod.splits)
qed

lemma Locate_not_Panic:
  "snd (LocateWCOWUVMFolderFromLayerFolders env fs) \<noteq> Panic"
  by (simp add: LocateWCOWUVMFolderFromLayerFolders_def split: prod.splits sum.splits)

text \<open>
  C3, as the code has it. The claim holds where every folder before the first match is
  reported as not existing and the matching folder is not the empty path. Over a list
  \<open>pre\<close> of folders whose markers do not exist the scan fails with the not-found error;
  when a folder \<open>f\<close> with a marker follows them and \<open>f\<close> is not the empty string, the
  scan returns \<open>f\<close>, and the \<^verbatim>\<open>os.Stat\<close> calls are those for \<open>pre\<close> and \<open>f\<close>: none
  for the folders \<open>post\<close> after the match.
\<close>

theorem Locate_first_match:
  assumes "\<forall>g\<in>set pre. IsNotExist (Stat env (marker env g))"
  shows "LocateWCOWUVMFolderFromLayerFolders env pre =
           (scanned env pre, Fail (Errorf ''utility VM folder could not be found in layers''))
       \<and> (Stat env (marker env f) = None \<and> f \<noteq> [] \<longrightarrow>
            LocateWCOWUVMFolderFromLayerFolders env (pre @ f # post) =
              (scanned env (pre @ [f]), Return f))"
  using loop_notexist_prefix [OF assms, of "[]"] loop_notexist_prefix [OF assms, of "f # post"]
  by (simp add: LocateWCOWUVMFolderFromLayerFolders_def scanned_def marker_def)

theorem Locate_first_match_witness:
  "IsNotExist (Stat (host 2 (fileSystem [''B'' @ backslash @ ''UtilityVM''] []))
                 (marker (host 2 (fileSystem [''B'' @ backslash @ ''UtilityVM''] [])) ''A''))
   \<and> LocateWCOWUVMFolderFromLayerFolders
        (host 2 (fileSystem [''B'' @ backslash @ ''UtilityVM''] [])) [''A''] =
        ([EvStat (''A'' @ backslash @ ''UtilityVM'')],
         Fail (Errorf ''utility VM folder could not be found in layers''))
   \<and> Stat (host 2 (fileSystem [''B'' @ backslash @ ''UtilityVM''] []))
        (marker (host 2 (fileSystem [''B'' @ backslash @ ''UtilityVM''] [])) ''B'') = None
   \<and> LocateWCOWUVMFolderFromLayerFolders
        (host 2 (fileSystem [''B'' @ backslash @ ''UtilityVM''] [])) [''A'', ''B'', ''C''] =
        ([EvStat (''A'' @ backslash @ ''UtilityVM''), EvStat (''B'' @ backslash @ ''UtilityVM'')],
         Return ''B'')"
  using Locate_first_match [of "[''A'']"
      "host 2 (fileSystem [''B'' @ backslash @ ''UtilityVM''] [])" "''B''" "[''C'']"]
  by (simp add: host_def fileSystem_def marker_def scanned_def backslash_def)

text \<open>
  C3 as stated fails on two inputs. In the first the only folder is the empty path and its
  marker exists: the loop stores the empty path, which line 99 reads as nothing found. In
  the second the marker of \<open>B\<close> exists and the check of \<open>A\<close> before it is denied: the
  scan returns the denial and not \<open>B\<close>.
\<close>

theorem Locate_first_match_counterexample:
  "Stat (host 2 (fileSystem [''UtilityVM''] [])) (marker (host 2 (fileSystem [''UtilityVM''] [])) [])
     = None
   \<and> LocateWCOWUVMFolderFromLayerFolders (host 2 (fileSystem [''UtilityVM''] [])) [[]] =
       ([EvStat ''UtilityVM''], Fail (Errorf ''utility VM folder could not be found in layers''))
   \<and> Stat (host 2 (fileSystem [''B'' @ backslash @ ''UtilityVM'']
                                [''A'' @ backslash @ ''UtilityVM'']))
        (marker (host 2 (fileSystem [''B'' @ backslash @ ''UtilityVM'']
                                    [''A'' @ backslash @ ''UtilityVM''])) ''B'') = None
   \<and> LocateWCOWUVMFolderFromLayerFolders
        (host 2 (fileSystem [''B'' @ backslash @ ''UtilityVM'']
                            [''A'' @ backslash @ ''UtilityVM''])) [''A'', ''B''] =
       ([EvStat (''A'' @ backslash @ ''UtilityVM'')], Fail (ErrOther ''Access is denied.''))"
  by (simp add: LocateWCOWUVMFolderFromLayerFolders_def host_def fileSystem_def marker_def
      backslash_def)

text \<open>
  C8. When the folders \<open>pre\<close> scanned so far have no marker and \<^verbatim>\<open>os.Stat\<close> on the
  marker of the next folder \<open>f\<close> fails with an error \<open>e\<close> that is not a not-exist error,
  the function returns \<open>e\<close> itself, whatever folders \<open>post\<close> follow, and the
  \<^verbatim>\<open>os.Stat\<close> calls it has made are those for \<open>pre\<close> and \<open>f\<close>: no folder after \<open>f\<close>
  is examined.
\<close>

theorem Locate_aborts_on_error:
  assumes "\<forall>g\<in>set pre. IsNotExist (Stat env (marker env g))"
    and "Stat env (marker env f) = Some e"
    and "\<not> IsNotExist (Some e)"
  shows "LocateWCOWUVMFolderFromLayerFolders env (pre @ f # post) =
           (scanned env (pre @ [f]), Fail e)"
  using loop_notexist_prefix [OF assms(1), of "f # post"] assms(2,3)
  by (simp add: LocateWCOWUVMFolderFromLayerFolders_def scanned_def marker_def)

theorem Locate_aborts_on_error_witness:
  "IsNotExist (Stat (host 2 (fileSystem [''B'' @ backslash @ ''UtilityVM'']
                                        [''A'' @ backslash @ ''UtilityVM'']))
                 (marker (host 2 (fileSystem [''B'' @ backslash @ ''UtilityVM'']
                                             [''A'' @ backslash @ ''UtilityVM''])) ''N''))
   \<and> Stat (host 2 (fileSystem [''B'' @ backslash @ ''UtilityVM'']
                                [''A'' @ backslash @ ''UtilityVM'']))
        (marker (host 2 (fileSystem [''B'' @ backslash @ ''UtilityVM'']
                                    [''A'' @ backslash @ ''UtilityVM''])) ''A'')
       = Some (ErrOther ''Access is denied.'')
   \<and> \<not> IsNotExist (Some (ErrOther ''Access is denied.''))
   \<and> LocateWCOWUVMFolderFromLayerFolders
        (host 2 (fileSystem [''B'' @ backslash @ ''UtilityVM'']
                            [''A'' @ backslash @ ''UtilityVM''])) [''N'', ''A'', ''B''] =
       ([EvStat (''N'' @ backslash @ ''UtilityVM''), EvStat (''A'' @ backslash @ ''UtilityVM'')],
        Fail (ErrOther ''Access is denied.''))"
  using Locate_aborts_on_error [of "[''N'']"
      "host 2 (fileSystem [''B'' @ backslash @ ''UtilityVM''] [''A'' @ backslash @ ''UtilityVM''])"
      "''A''" "ErrOther ''Access is denied.''" "[''B'']"]
  by (simp add: host_def fileSystem_def marker_def scanned_def backslash_def)

subsection \<open>The checks of the specification\<close>

lemmas reason_defs = reasonLayerFolders_def reasonHostname_def reasonCPUShares_def
  reasonCPUMaximum_def reasonRoot_def reasonStorage_def reasonCredentialSpec_def
  reasonNetwork_def reasonMounts_def

text \<open>With \<^verbatim>\<open>coi.Spec\<close> and its Windows section there, the checks are a chain of tests.\<close>

lemma hasCPUShares_alt:
  "hasCPUShares w \<longleftrightarrow>
     Resources w \<noteq> None \<and> CPU (the (Resources w)) \<noteq> None
       \<and> Shares (the (CPU (the (Resources w)))) \<noteq> None"
  by (simp add: hasCPUShares_def split: option.splits)

lemma hasCPUMaximum_alt:
  "hasCPUMaximum w \<longleftrightarrow>
     Resources w \<noteq> None \<and> CPU (the (Resources w)) \<noteq> None
       \<and> Maximum (the (CPU (the (Resources w)))) \<noteq> None"
  by (simp add: hasCPUMaximum_def split: option.splits)

lemma hasStorage_alt:
  "hasStorage w \<longleftrightarrow> Resources w \<noteq> None \<and> Storage (the (Resources w)) \<noteq> None"
  by (simp add: hasStorage_def split: option.splits)

lemma checks_unfold:
  assumes "Spec coi = Some s" "Windows s = Some w"
  shows "createWCOWv2UVM_checks coi =
     (if length (LayerFolders w) < 2 then Fail (Errorf reasonLayerFolders)
      else if Hostname s \<noteq> [] then Fail (Errorf reasonHostname)
      else if hasCPUShares w then Fail (Errorf reasonCPUShares)
      else if hasCPUMaximum w then Fail (Errorf reasonCPUMaximum)
      else if Root s \<noteq> None then Fail (Errorf reasonRoot)
      else if hasStorage w then Fail (Errorf reasonStorage)
      else if CredentialSpec w \<noteq> None then Fail (Errorf reasonCredentialSpec)
      else if Network w \<noteq> None then Fail (Errorf reasonNetwork)
      else if Mounts s \<noteq> [] then Fail (Errorf reasonMounts)
      else Return ())"
  unfolding createWCOWv2UVM_checks_def hasCPUShares_alt hasCPUMaximum_alt hasStorage_alt
    reason_defs iocis_def
  by (simp add: assms)

lemma reasons_distinct:
  "distinct [reasonLayerFolders, reasonHostname, reasonCPUShares, reasonCPUMaximum,
     reasonRoot, reasonStorage, reasonCredentialSpec, reasonNetwork, reasonMounts]"
  by (simp add: reason_defs)

lemma reasons_name_field:
  "sublist ''Windows.LayerFolders'' reasonLayerFolders"
  "sublist ''Hostname'' reasonHostname"
  "sublist ''Windows.Resources.CPU.Shares'' reasonCPUShares"
  "sublist ''Windows.Resources.CPU.Maximum'' reasonCPUMaximum"
  "sublist ''Root'' reasonRoot"
  "sublist ''Windows.Resources.Storage'' reasonStorage"
  "sublist ''Windows.CredentialSpec'' reasonCredentialSpec"
  "sublist ''Windows.Network'' reasonNetwork"
  "sublist ''Mounts'' reasonMounts"
  unfolding reason_defs by code_simp+

lemma checks_Return:
  assumes "createWCOWv2UVM_checks coi = Return u"
  obtains s w where "Spec coi = Some s" "Windows s = Some w" "2 \<le> length (LayerFolders w)"
  using assms
  by (auto simp add: createWCOWv2UVM_checks_def split: option.splits if_splits)

text \<open>
  C2, as the code has it. For a specification with its Windows section, the checks of
  lines 109 to 136 let it
  pass exactly when it has at least two layer folders, an empty hostname, no CPU shares, no
  CPU maximum, no root, no storage limits, no credential spec, no network and no mounts.
  Otherwise they return the reason of the first check that fails, in the order of the
  source: each of the nine reasons is returned exactly when its own field is the first
  one at fault. The nine reasons are pairwise different, and each contains the name of its
  field; with fewer than two layer folders the reason is the one that names
  \<^verbatim>\<open>Windows.LayerFolders\<close>.
\<close>

theorem checks_accept_and_reject:
  assumes "Spec coi = Some s" and "Windows s = Some w"
  shows "(createWCOWv2UVM_checks coi = Return () \<longleftrightarrow>
            2 \<le> length (LayerFolders w) \<and> Hostname s = [] \<and> \<not> hasCPUShares w
          \<and> \<not> hasCPUMaximum w \<and> Root s = None \<and> \<not> hasStorage w
          \<and> CredentialSpec w = None \<and> Network w = None \<and> Mounts s = [])
       \<and> (createWCOWv2UVM_checks coi = Fail (Errorf reasonLayerFolders) \<longleftrightarrow>
            length (LayerFolders w) < 2)
       \<and> (createWCOWv2UVM_checks coi = Fail (Errorf reasonHostname) \<longleftrightarrow>
            2 \<le> length (LayerFolders w) \<and> Hostname s \<noteq> [])
       \<and> (createWCOWv2UVM_checks coi = Fail (Errorf reasonCPUShares) \<longleftrightarrow>
            2 \<le> length (LayerFolders w) \<and> Hostname s = [] \<and> hasCPUShares w)
       \<and> (createWCOWv2UVM_checks coi = Fail (Errorf reasonCPUMaximum) \<longleftrightarrow>
            2 \<le> length (LayerFolders w) \<and> Hostname s = [] \<and> \<not> hasCPUShares w
          \<and> hasCPUMaximum w)
       \<and> (createWCOWv2UVM_checks coi = Fail (Errorf reasonRoot) \<longleftrightarrow>
            2 \<le> length (LayerFolders w) \<and> Hostname s = [] \<and> \<not> hasCPUShares w
          \<and> \<not> hasCPUMaximum w \<and> Root s \<noteq> None)
       \<and> (createWCOWv2UVM_checks coi = Fail (Errorf reasonStorage) \<longleftrightarrow>
            2 \<le> length (LayerFolders w) \<and> Hostname s = [] \<and> \<not> hasCPUShares w
          \<and> \<not> hasCPUMaximum w \<and> Root s = None \<and> hasStorage w)
       \<and> (createWCOWv2UVM_checks coi = Fail (Errorf reasonCredentialSpec) \<longleftrightarrow>
            2 \<le> length (LayerFolders w) \<and> Hostname s = [] \<and> \<not> hasCPUShares w
          \<and> \<not> hasCPUMaximum w \<and> Root s = None \<and> \<not> hasStorage w
          \<and> CredentialSpec w \<noteq> None)
       \<and> (createWCOWv2UVM_checks coi = Fail (Errorf reasonNetwork) \<longleftrightarrow>
            2 \<le> length (LayerFolders w) \<and> Hostname s = [] \<and> \<not> hasCPUShares w
          \<and> \<not> hasCPUMaximum w \<and> Root s = None \<and> \<not> hasStorage w
          \<and> CredentialSpec w = None \<and> Network w \<noteq> None)
       \<and> (createWCOWv2UVM_checks coi = Fail (Errorf reasonMounts) \<longleftrightarrow>
            2 \<le> length (LayerFolders w) \<and> Hostname s = [] \<and> \<not> hasCPUShares w
          \<and> \<not> hasCPUMaximum w \<and> Root s = None \<and> \<not> hasStorage w
          \<and> CredentialSpec w = None \<and> Network w = None \<and> Mounts s \<noteq> [])
       \<and> distinct [reasonLayerFolders, reasonHostname, reasonCPUShares, reasonCPUMaximum,
            reasonRoot, reasonStorage, reasonCredentialSpec, reasonNetwork, reasonMounts]
       \<and> sublist ''Windows.LayerFolders'' reasonLayerFolders
       \<and> sublist ''Hostname'' reasonHostname
       \<and> sublist ''Windows.Resources.CPU.Shares'' reasonCPUShares
       \<and> sublist ''Windows.Resources.CPU.Maximum'' reasonCPUMaximum
       \<and> sublist ''Root'' reasonRoot
       \<and> sublist ''Windows.Resources.Storage'' reasonStorage
       \<and> sublist ''Windows.CredentialSpec'' reasonCredentialSpec
       \<and> sublist ''Windows.Network'' reasonNetwork
       \<and> sublist ''Mounts'' reasonMounts"
proof -
  have chain: "(createWCOWv2UVM_checks coi = Return () \<longleftrightarrow>
            2 \<le> length (LayerFolders w) \<and> Hostname s = [] \<and> \<not> hasCPUShares w
          \<and> \<not> hasCPUMaximum w \<and> Root s = None \<and> \<not> hasStorage w
          \<and> CredentialSpec w = None \<and> Network w = None \<and> Mounts s = [])"
    "(createWCOWv2UVM_checks coi = Fail (Errorf reasonLayerFolders) \<longleftrightarrow>
            length (LayerFolders w) < 2)"
    "(createWCOWv2UVM_checks coi = Fail (Errorf reasonHostname) \<longleftrightarrow>
            2 \<le> length (LayerFolders w) \<and> Hostname s \<noteq> [])"
    "(createWCOWv2UVM_checks coi = Fail (Errorf reasonCPUShares) \<longleftrightarrow>
            2 \<le> length (LayerFolders w) \<and> Hostname s = [] \<and> hasCPUShares w)"
    "(createWCOWv2UVM_checks coi = Fail (Errorf reasonCPUMaximum) \<longleftrightarrow>
            2 \<le> length (LayerFolders w) \<and> Hostname s = [] \<and> \<not> hasCPUShares w
          \<and> hasCPUMaximum w)"
    "(createWCOWv2UVM_checks coi = Fail (Errorf reasonRoot) \<longleftrightarrow>
            2 \<le> length (LayerFolders w) \<and> Hostname s = [] \<and> \<not> hasCPUShares w
          \<and> \<not> hasCPUMaximum w \<and> Root s \<noteq> None)"
    "(createWCOWv2UVM_checks coi = Fail (Errorf reasonStorage) \<longleftrightarrow>
            2 \<le> length (LayerFolders w) \<and> Hostname s = [] \<and> \<not> hasCPUShares w
          \<and> \<not> hasCPUMaximum w \<and> Root s = None \<and> hasStorage w)"
    "(createWCOWv2UVM_checks coi = Fail (Errorf reasonCredentialSpec) \<longleftrightarrow>
            2 \<le> length (LayerFolders w) \<and> Hostname s = [] \<and> \<not> hasCPUShares w
          \<and> \<not> hasCPUMaximum w \<and> Root s = None \<and> \<not> hasStorage w
          \<and> CredentialSpec w \<noteq> None)"
    "(createWCOWv2UVM_checks coi = Fail (Errorf reasonNetwork) \<longleftrightarrow>
            2 \<le> length (LayerFolders w) \<and> Hostname s = [] \<and> \<not> hasCPUShares w
          \<and> \<not> hasCPUMaximum w \<and> Root s = None \<and> \<not> hasStorage w
          \<and> CredentialSpec w = None \<and> Network w \<noteq> None)"
    "(createWCOWv2UVM_checks coi = Fail (Errorf reasonMounts) \<longleftrightarrow>
            2 \<le> length (LayerFolders w) \<and> Hostname s = [] \<and> \<not> hasCPUShares w
          \<and> \<not> hasCPUMaximum w \<and> Root s = None \<and> \<not> hasStorage w
          \<and> CredentialSpec w = None \<and> Network w = None \<and> Mounts s \<noteq> [])"
    unfolding checks_unfold [OF assms] reason_defs by simp_all
  show ?thesis
    by (intro conjI chain reasons_distinct reasons_name_field)
qed

theorem checks_accept_and_reject_witness:
  "Spec (optionsOf (Some (specOf (Some (windowsOf [''B'', ''S''] None)))))
     = Some (specOf (Some (windowsOf [''B'', ''S''] None)))
   \<and> Windows (specOf (Some (windowsOf [''B'', ''S''] None)))
     = Some (windowsOf [''B'', ''S''] None)
   \<and> createWCOWv2UVM_checks (optionsOf (Some (specOf (Some (windowsOf [''B'', ''S''] None)))))
     = Return ()
   \<and> createWCOWv2UVM_checks (optionsOf (Some (specOf (Some (windowsOf [''S''] None)))))
     = Fail (Errorf reasonLayerFolders)"
proof -
  have a: "Spec (optionsOf (Some (specOf (Some (windowsOf fs None)))))
             = Some (specOf (Some (windowsOf fs None)))" for fs
    by (simp add: optionsOf_def)
  have b: "Windows (specOf (Some (windowsOf fs None))) = Some (windowsOf fs None)" for fs
    by (simp add: specOf_def)
  have "createWCOWv2UVM_checks (optionsOf (Some (specOf (Some (windowsOf [''B'', ''S''] None)))))
          = Return ()"
    using checks_accept_and_reject [OF a b, of "[''B'', ''S'']", THEN conjunct1]
    by (simp add: specOf_def windowsOf_def hasCPUShares_def hasCPUMaximum_def hasStorage_def)
  moreover
  have "createWCOWv2UVM_checks (optionsOf (Some (specOf (Some (windowsOf [''S''] None)))))
          = Fail (Errorf reasonLayerFolders)"
    using checks_accept_and_reject [OF a b, of "[''S'']", THEN conjunct2, THEN conjunct1]
    by (simp add: windowsOf_def)
  ultimately show ?thesis
    using a b by simp
qed

text \<open>
  C2 as stated fails for a specification without its Windows section: it has no layer
  folders, which is fewer than two, and line 110 dereferences nil where the claim has the
  reason that names \<^verbatim>\<open>Windows.LayerFolders\<close> returned.
\<close>

theorem checks_accept_and_reject_counterexample:
  "Windows (specOf None) = None
   \<and> createWCOWv2UVM_checks (optionsOf (Some (specOf None))) = Panic
   \<and> createWCOWv2UVM_checks (optionsOf (Some (specOf None)))
       \<noteq> Fail (Errorf reasonLayerFolders)"
  by (simp add: createWCOWv2UVM_checks_def optionsOf_def specOf_def)

text \<open>
  C9, as the code has it. When \<^verbatim>\<open>coi.Spec\<close> and its Windows section are there, the
  checks end in one of two ways: they let the specification pass, or they return one of
  the nine reasons. They read nothing but \<open>coi\<close>.
\<close>

theorem checks_total_when_present:
  assumes "Spec coi = Some s" and "Windows s = Some w"
  shows "createWCOWv2UVM_checks coi = Return ()
       \<or> (\<exists>reason \<in> set [reasonLayerFolders, reasonHostname, reasonCPUShares,
              reasonCPUMaximum, reasonRoot, reasonStorage, reasonCredentialSpec, reasonNetwork,
              reasonMounts]. createWCOWv2UVM_checks coi = Fail (Errorf reason))"
  unfolding checks_unfold [OF assms] by simp

theorem checks_total_when_present_witness:
  "Spec (optionsOf (Some (specOf (Some (windowsOf [''S''] None)))))
     = Some (specOf (Some (windowsOf [''S''] None)))
   \<and> Windows (specOf (Some (windowsOf [''S''] None))) = Some (windowsOf [''S''] None)
   \<and> createWCOWv2UVM_checks (optionsOf (Some (specOf (Some (windowsOf [''S''] None)))))
     = Fail (Errorf reasonLayerFolders)"
proof -
  have a: "Spec (optionsOf (Some (specOf (Some (windowsOf [''S''] None)))))
             = Some (specOf (Some (windowsOf [''S''] None)))"
    by (simp add: optionsOf_def)
  have b: "Windows (specOf (Some (windowsOf [''S''] None))) = Some (windowsOf [''S''] None)"
    by (simp add: specOf_def)
  have "createWCOWv2UVM_checks (optionsOf (Some (specOf (Some (windowsOf [''S''] None)))))
          = Fail (Errorf reasonLayerFolders)"
    using checks_total_when_present [OF a b]
    unfolding checks_unfold [OF a b] by (simp add: windowsOf_def)
  with a b show ?thesis by simp
qed

text \<open>
  C9 as stated fails: with \<^verbatim>\<open>coi.Spec\<close> nil, and with a specification that has no
  Windows section, line 110 dereferences a nil pointer, and the checks neither accept nor
  reject.
\<close>

theorem checks_total_counterexample:
  "createWCOWv2UVM_checks (optionsOf None) = Panic
   \<and> createWCOWv2UVM_checks (optionsOf (Some (specOf None))) = Panic"
  by (simp add: createWCOWv2UVM_checks_def optionsOf_def specOf_def)

subsection \<open>The run of createWCOWv2UVM\<close>

lemma Sandbox_not_Panic: "snd (CreateWCOWUVMSandbox env img dst vm) \<noteq> Panic"
  by (simp add: CreateWCOWUVMSandbox_def Let_def split: option.splits)

lemma sandboxFolder_not_Panic: "snd (createWCOWv2UVM_sandboxFolder env sb) \<noteq> Panic"
  by (simp add: createWCOWv2UVM_sandboxFolder_def split: option.splits)

lemma create_not_Panic: "snd (createWCOWv2UVM_create env coi w sb uf) \<noteq> Panic"
  by (simp add: createWCOWv2UVM_create_def Let_def split: prod.splits sum.splits)

lemma Sandbox_Return:
  "CreateWCOWUVMSandbox env img dst vm = (tr, Return u) \<Longrightarrow>
     tr = [EvCopyFile (Join env img (''UtilityVM'' @ backslash @ ''SystemTemplate.vhdx''))
             (Join env dst ''sandbox.vhdx'') True,
           EvGrantVmAccess vm (Join env dst ''sandbox.vhdx'')]
     \<and> CopyFile env (Join env img (''UtilityVM'' @ backslash @ ''SystemTemplate.vhdx''))
           (Join env dst ''sandbox.vhdx'') True = None
     \<and> GrantVmAccess env vm (Join env dst ''sandbox.vhdx'') = None"
  by (auto simp add: CreateWCOWUVMSandbox_def Let_def split: option.splits)

lemma sandboxFolder_Return:
  "createWCOWv2UVM_sandboxFolder env sb = (tr, Return u) \<Longrightarrow>
     (IsNotExist (Stat env sb) \<and> MkdirAll env sb 511 = None
        \<and> tr = [EvStat sb, EvMkdirAll sb 511])
     \<or> (\<not> IsNotExist (Stat env sb) \<and> tr = [EvStat sb])"
  by (auto simp add: createWCOWv2UVM_sandboxFolder_def split: option.splits if_splits)

lemma create_Return:
  assumes "createWCOWv2UVM_create env coi w sb uf = (tr, Return c)"
  obtains uvmb c0 where
    "Marshal env (createWCOWv2UVM_document env coi sb uf
        (fst (createWCOWv2UVM_resources env w)) (snd (createWCOWv2UVM_resources env w)))
       = Inr uvmb"
    "createContainer env (actualId coi) uvmb (SchemaV20 env) = Inr c0"
    "tr = [EvCreateContainer (actualId coi)
             (createWCOWv2UVM_document env coi sb uf
                (fst (createWCOWv2UVM_resources env w)) (snd (createWCOWv2UVM_resources env w)))
             uvmb (SchemaV20 env)]"
    "c = c0\<lparr>hostPath := (hostPath c0)((0, 0) := Join env sb ''sandbox.vhdx''),
           operatingSystem := ''windows''\<rparr>"
  using assms
  by (auto simp add: createWCOWv2UVM_create_def createWCOWv2UVM_attachments_def Let_def
      split: prod.splits sum.splits)

lemma createWCOWv2UVM_Panic:
  "snd (createWCOWv2UVM env coi) = Panic \<longleftrightarrow> createWCOWv2UVM_checks coi = Panic"
  by (simp add: createWCOWv2UVM_def Let_def andThen_Panic wrapError_Panic Locate_not_Panic
      Sandbox_not_Panic sandboxFolder_not_Panic create_not_Panic)

text \<open>What a run that returns a container has gone through, step by step.\<close>

lemma createWCOWv2UVM_ReturnE:
  assumes "createWCOWv2UVM env coi = (tr, Return c)"
  obtains s w uvmFolder tr1 tr2 uvmb c0 where
    "Spec coi = Some s" "Windows s = Some w" "2 \<le> length (LayerFolders w)"
    "createWCOWv2UVM_checks coi = Return ()"
    "LocateWCOWUVMFolderFromLayerFolders env (LayerFolders w) = (tr1, Return uvmFolder)"
    "(IsNotExist (Stat env (last (LayerFolders w)))
        \<and> MkdirAll env (last (LayerFolders w)) 511 = None
        \<and> tr2 = [EvStat (last (LayerFolders w)), EvMkdirAll (last (LayerFolders w)) 511])
     \<or> (\<not> IsNotExist (Stat env (last (LayerFolders w)))
        \<and> tr2 = [EvStat (last (LayerFolders w))])"
    "CopyFile env (Join env uvmFolder (''UtilityVM'' @ backslash @ ''SystemTemplate.vhdx''))
       (Join env (last (LayerFolders w)) ''sandbox.vhdx'') True = None"
    "GrantVmAccess env (actualId coi) (Join env (last (LayerFolders w)) ''sandbox.vhdx'') = None"
    "Marshal env (createWCOWv2UVM_document env coi (last (LayerFolders w)) uvmFolder
        (fst (createWCOWv2UVM_resources env w)) (snd (createWCOWv2UVM_resources env w)))
       = Inr uvmb"
    "createContainer env (actualId coi) uvmb (SchemaV20 env) = Inr c0"
    "tr = tr1 @ tr2 @
       [EvCopyFile (Join env uvmFolder (''UtilityVM'' @ backslash @ ''SystemTemplate.vhdx''))
          (Join env (last (LayerFolders w)) ''sandbox.vhdx'') True,
        EvGrantVmAccess (actualId coi) (Join env (last (LayerFolders w)) ''sandbox.vhdx''),
        EvCreateContainer (actualId coi)
          (createWCOWv2UVM_document env coi (last (LayerFolders w)) uvmFolder
             (fst (createWCOWv2UVM_resources env w)) (snd (createWCOWv2UVM_resources env w)))
          uvmb (SchemaV20 env)]"
    "c = c0\<lparr>hostPath := (hostPath c0)((0, 0) := Join env (last (LayerFolders w)) ''sandbox.vhdx''),
           operatingSystem := ''windows''\<rparr>"
proof -
  from assms obtain u where ch: "createWCOWv2UVM_checks coi = Return u"
    unfolding createWCOWv2UVM_def by (elim andThen_ReturnE) simp
  then have ch': "createWCOWv2UVM_checks coi = Return ()"
    by simp
  from ch obtain s w where sw: "Spec coi = Some s" "Windows s = Some w"
    and len: "2 \<le> length (LayerFolders w)"
    by (rule checks_Return)
  define sb where "sb = last (LayerFolders w)"
  have idx: "LayerFolders w ! (length (LayerFolders w) - Suc 0) = sb"
    using len unfolding sb_def by (cases "LayerFolders w" rule: rev_cases) auto
  from assms obtain tr1 uvmFolder tr2 tr3 tr4 u2 u3 where
    loc: "LocateWCOWUVMFolderFromLayerFolders env (LayerFolders w) = (tr1, Return uvmFolder)" and
    mk: "createWCOWv2UVM_sandboxFolder env sb = (tr2, Return u2)" and
    sx: "CreateWCOWUVMSandbox env uvmFolder sb (actualId coi) = (tr3, Return u3)" and
    cr: "createWCOWv2UVM_create env coi w sb uvmFolder = (tr4, Return c)" and
    tr: "tr = tr1 @ tr2 @ tr3 @ tr4"
    unfolding createWCOWv2UVM_def Let_def
    by (elim andThen_ReturnE) (auto simp add: sw idx wrapError_Return)
  from cr obtain uvmb c0 where
    ma: "Marshal env (createWCOWv2UVM_document env coi sb uvmFolder
        (fst (createWCOWv2UVM_resources env w)) (snd (createWCOWv2UVM_resources env w)))
       = Inr uvmb" and
    cc: "createContainer env (actualId coi) uvmb (SchemaV20 env) = Inr c0" and
    tr4: "tr4 = [EvCreateContainer (actualId coi)
             (createWCOWv2UVM_document env coi sb uvmFolder
                (fst (createWCOWv2UVM_resources env w)) (snd (createWCOWv2UVM_resources env w)))
             uvmb (SchemaV20 env)]" and
    c: "c = c0\<lparr>hostPath := (hostPath c0)((0, 0) := Join env sb ''sandbox.vhdx''),
           operatingSystem := ''windows''\<rparr>"
    by (rule create_Return)
  note sr = Sandbox_Return [OF sx]
  have tr': "tr = tr1 @ tr2 @
       [EvCopyFile (Join env uvmFolder (''UtilityVM'' @ backslash @ ''SystemTemplate.vhdx''))
          (Join env sb ''sandbox.vhdx'') True,
        EvGrantVmAccess (actualId coi) (Join env sb ''sandbox.vhdx''),
        EvCreateContainer (actualId coi)
          (createWCOWv2UVM_document env coi sb uvmFolder
             (fst (createWCOWv2UVM_resources env w)) (snd (createWCOWv2UVM_resources env w)))
          uvmb (SchemaV20 env)]"
    unfolding tr tr4 sr [THEN conjunct1] by simp
  show ?thesis
    by (rule that [OF sw len ch' loc sandboxFolder_Return [OF mk, unfolded sb_def]
          sr [THEN conjunct2, THEN conjunct1, unfolded sb_def]
          sr [THEN conjunct2, THEN conjunct2, unfolded sb_def]
          ma [unfolded sb_def] cc tr' [unfolded sb_def] c [unfolded sb_def]])
qed

text \<open>The document, field by field.\<close>

lemma document_fields:
  "\<exists>vm chipset uefi boot topology memory processor devices scsi att share gi.
       Owner (createWCOWv2UVM_document env coi sb uf mem procs) = actualOwner coi
     \<and> SchemaVersion (createWCOWv2UVM_document env coi sb uf mem procs) = actualSchemaVersion coi
     \<and> VirtualMachine (createWCOWv2UVM_document env coi sb uf mem procs) = Some vm
     \<and> Chipset vm = Some chipset \<and> UEFI chipset = Some uefi \<and> BootThis uefi = Some boot
     \<and> DevicePath boot =
         backslash @ ''EFI'' @ backslash @ ''Microsoft'' @ backslash @ ''Boot''
           @ backslash @ ''bootmgfw.efi''
     \<and> DiskNumber boot = 0 \<and> UefiDevice boot = ''VMBFS''
     \<and> ComputeTopology vm = Some topology
     \<and> VirtualMachinesResourcesComputeTopologyV2.Memory topology = Some memory
     \<and> Backing memory = ''Virtual'' \<and> Startup memory = mem
     \<and> DirectFileMappingMB memory = 1024
     \<and> Processor topology = Some processor
     \<and> VirtualMachinesResourcesComputeProcessorV2.Count processor = procs
     \<and> Devices vm = Some devices
     \<and> dom (SCSI devices) = {''0''} \<and> SCSI devices ''0'' = Some scsi
     \<and> dom (Attachments scsi) = {''0''} \<and> Attachments scsi ''0'' = Some att
     \<and> VirtualMachinesResourcesStorageAttachmentV2.Path att = Join env sb ''sandbox.vhdx''
     \<and> Type att = ''VirtualDisk''
     \<and> VirtualSMBShares devices = [share]
     \<and> Name share = ''os''
     \<and> Path share = Join env uf (''UtilityVM'' @ backslash @ ''Files'')
     \<and> Flags share =
         VsmbFlagReadOnly env OR VsmbFlagPseudoOplocks env
           OR VsmbFlagTakeBackupPrivilege env OR VsmbFlagCacheIO env
           OR VsmbFlagShareRead env
     \<and> GuestInterface devices = Some gi \<and> ConnectToBridge gi"
  by (simp add: createWCOWv2UVM_document_def createWCOWv2UVM_attachments_def Let_def)

text \<open>
  C6. When \<^verbatim>\<open>createWCOWv2UVM\<close> returns a container \<open>c\<close>, the checks have passed, the
  scan of the layer folders has returned a folder \<open>uvmFolder\<close>, and after the
  \<^verbatim>\<open>os.Stat\<close> calls of the scan and the one on the sandbox folder (followed by a
  successful \<^verbatim>\<open>os.MkdirAll\<close> when the folder did not exist) the run makes three calls,
  each of which returns without an error: \<^verbatim>\<open>CopyFile\<close> from
  \<^verbatim>\<open>Join(uvmFolder, "UtilityVM\SystemTemplate.vhdx")\<close> to
  \<^verbatim>\<open>Join(last layer folder, "sandbox.vhdx")\<close> with overwriting, \<^verbatim>\<open>GrantVmAccess\<close>
  for the identifier on that copy, and \<^verbatim>\<open>createContainer\<close> with what
  \<^verbatim>\<open>json.Marshal\<close> makes of the document \<open>uvm\<close>. In \<open>uvm\<close> the SCSI map has the one
  controller \<open>0\<close> with the one attachment \<open>0\<close>, a virtual disk whose path is the copy;
  there is one share, with the five flags, whose path is
  \<^verbatim>\<open>Join(uvmFolder, "UtilityVM\Files")\<close>; the boot entry is
  \<^verbatim>\<open>\EFI\Microsoft\Boot\bootmgfw.efi\<close> on disk 0; \<^verbatim>\<open>ConnectToBridge\<close> is set; owner,
  schema version, memory and processors are those of the caller and of lines 167 to 179.
  The container \<open>c\<close> is the one \<^verbatim>\<open>createContainer\<close> returned, with the path of the
  copy at slot (0, 0) and the operating system \<^verbatim>\<open>windows\<close>.
\<close>

theorem createWCOWv2UVM_descriptor:
  assumes "createWCOWv2UVM env coi = (tr, Return c)"
  shows "\<exists>s w uvmFolder tr1 tr2 uvm uvmb c0 vm chipset uefi boot topology memory processor
            devices scsi att share gi.
           Spec coi = Some s \<and> Windows s = Some w
         \<and> createWCOWv2UVM_checks coi = Return ()
         \<and> LocateWCOWUVMFolderFromLayerFolders env (LayerFolders w) = (tr1, Return uvmFolder)
         \<and> ((IsNotExist (Stat env (last (LayerFolders w)))
                \<and> MkdirAll env (last (LayerFolders w)) 511 = None
                \<and> tr2 = [EvStat (last (LayerFolders w)),
                          EvMkdirAll (last (LayerFolders w)) 511])
             \<or> (\<not> IsNotExist (Stat env (last (LayerFolders w)))
                \<and> tr2 = [EvStat (last (LayerFolders w))]))
         \<and> CopyFile env
               (Join env uvmFolder (''UtilityVM'' @ backslash @ ''SystemTemplate.vhdx''))
               (Join env (last (LayerFolders w)) ''sandbox.vhdx'') True = None
         \<and> GrantVmAccess env (actualId coi)
               (Join env (last (LayerFolders w)) ''sandbox.vhdx'') = None
         \<and> Marshal env uvm = Inr uvmb
         \<and> createContainer env (actualId coi) uvmb (SchemaV20 env) = Inr c0
         \<and> tr = tr1 @ tr2 @
             [EvCopyFile
                (Join env uvmFolder (''UtilityVM'' @ backslash @ ''SystemTemplate.vhdx''))
                (Join env (last (LayerFolders w)) ''sandbox.vhdx'') True,
              EvGrantVmAccess (actualId coi) (Join env (last (LayerFolders w)) ''sandbox.vhdx''),
              EvCreateContainer (actualId coi) uvm uvmb (SchemaV20 env)]
         \<and> c = c0\<lparr>hostPath := (hostPath c0)
                       ((0, 0) := Join env (last (LayerFolders w)) ''sandbox.vhdx''),
                     operatingSystem := ''windows''\<rparr>
         \<and> Owner uvm = actualOwner coi
         \<and> SchemaVersion uvm = actualSchemaVersion coi
         \<and> VirtualMachine uvm = Some vm
         \<and> Chipset vm = Some chipset \<and> UEFI chipset = Some uefi \<and> BootThis uefi = Some boot
         \<and> DevicePath boot =
             backslash @ ''EFI'' @ backslash @ ''Microsoft'' @ backslash @ ''Boot''
               @ backslash @ ''bootmgfw.efi''
         \<and> DiskNumber boot = 0 \<and> UefiDevice boot = ''VMBFS''
         \<and> ComputeTopology vm = Some topology
         \<and> VirtualMachinesResourcesComputeTopologyV2.Memory topology = Some memory
         \<and> Backing memory = ''Virtual''
         \<and> Startup memory = fst (createWCOWv2UVM_resources env w)
         \<and> DirectFileMappingMB memory = 1024
         \<and> Processor topology = Some processor
         \<and> VirtualMachinesResourcesComputeProcessorV2.Count processor =
             snd (createWCOWv2UVM_resources env w)
         \<and> Devices vm = Some devices
         \<and> dom (SCSI devices) = {''0''} \<and> SCSI devices ''0'' = Some scsi
         \<and> dom (Attachments scsi) = {''0''} \<and> Attachments scsi ''0'' = Some att
         \<and> VirtualMachinesResourcesStorageAttachmentV2.Path att =
             Join env (last (LayerFolders w)) ''sandbox.vhdx''
         \<and> Type att = ''VirtualDisk''
         \<and> VirtualSMBShares devices = [share]
         \<and> Name share = ''os''
         \<and> Path share = Join env uvmFolder (''UtilityVM'' @ backslash @ ''Files'')
         \<and> Flags share =
             VsmbFlagReadOnly env OR VsmbFlagPseudoOplocks env
               OR VsmbFlagTakeBackupPrivilege env OR VsmbFlagCacheIO env
               OR VsmbFlagShareRead env
         \<and> GuestInterface devices = Some gi \<and> ConnectToBridge gi"
proof -
  from assms obtain s w uvmFolder tr1 tr2 uvmb c0 where
    sw: "Spec coi = Some s" "Windows s = Some w" and
    len: "2 \<le> length (LayerFolders w)" and
    ch: "createWCOWv2UVM_checks coi = Return ()" and
    loc: "LocateWCOWUVMFolderFromLayerFolders env (LayerFolders w) = (tr1, Return uvmFolder)" and
    tr2: "(IsNotExist (Stat env (last (LayerFolders w)))
              \<and> MkdirAll env (last (LayerFolders w)) 511 = None
              \<and> tr2 = [EvStat (last (LayerFolders w)),
                        EvMkdirAll (last (LayerFolders w)) 511])
           \<or> (\<not> IsNotExist (Stat env (last (LayerFolders w)))
              \<and> tr2 = [EvStat (last (LayerFolders w))])" and
    cp: "CopyFile env (Join env uvmFolder (''UtilityVM'' @ backslash @ ''SystemTemplate.vhdx''))
       (Join env (last (LayerFolders w)) ''sandbox.vhdx'') True = None" and
    gr: "GrantVmAccess env (actualId coi) (Join env (last (LayerFolders w)) ''sandbox.vhdx'')
       = None" and
    ma: "Marshal env (createWCOWv2UVM_document env coi (last (LayerFolders w)) uvmFolder
        (fst (createWCOWv2UVM_resources env w)) (snd (createWCOWv2UVM_resources env w)))
       = Inr uvmb" and
    cc: "createContainer env (actualId coi) uvmb (SchemaV20 env) = Inr c0" and
    tr: "tr = tr1 @ tr2 @
       [EvCopyFile (Join env uvmFolder (''UtilityVM'' @ backslash @ ''SystemTemplate.vhdx''))
          (Join env (last (LayerFolders w)) ''sandbox.vhdx'') True,
        EvGrantVmAccess (actualId coi) (Join env (last (LayerFolders w)) ''sandbox.vhdx''),
        EvCreateContainer (actualId coi)
          (createWCOWv2UVM_document env coi (last (LayerFolders w)) uvmFolder
             (fst (createWCOWv2UVM_resources env w)) (snd (createWCOWv2UVM_resources env w)))
          uvmb (SchemaV20 env)]" and
    c: "c = c0\<lparr>hostPath := (hostPath c0)((0, 0) := Join env (last (LayerFolders w)) ''sandbox.vhdx''),
           operatingSystem := ''windows''\<rparr>"
    by (rule createWCOWv2UVM_ReturnE)
  from document_fields [of env coi "last (LayerFolders w)" uvmFolder
      "fst (createWCOWv2UVM_resources env w)" "snd (createWCOWv2UVM_resources env w)"]
  show ?thesis
    apply (elim exE)
    subgoal for vm chipset uefi boot topology memory processor devices scsi att share gi
      apply (rule exI [of _ s], rule exI [of _ w], rule exI [of _ uvmFolder])
      apply (rule exI [of _ tr1], rule exI [of _ tr2])
      apply (rule exI [of _ "createWCOWv2UVM_document env coi (last (LayerFolders w)) uvmFolder
             (fst (createWCOWv2UVM_resources env w)) (snd (createWCOWv2UVM_resources env w))"])
      apply (rule exI [of _ uvmb], rule exI [of _ c0])
      apply (rule exI [of _ vm], rule exI [of _ chipset])
      apply (rule exI [of _ uefi], rule exI [of _ boot], rule exI [of _ topology])
      apply (rule exI [of _ memory], rule exI [of _ processor], rule exI [of _ devices])
      apply (rule exI [of _ scsi], rule exI [of _ att], rule exI [of _ share])
      apply (rule exI [of _ gi])
      apply (rule conjI, rule sw(1), rule conjI, rule sw(2), rule conjI, rule ch)
      apply (rule conjI, rule loc, rule conjI, rule tr2, rule conjI, rule cp)
      apply (rule conjI, rule gr, rule conjI, rule ma, rule conjI, rule cc)
      apply (rule conjI, rule tr, rule conjI, rule c)
      apply assumption
      done
    done
qed

theorem createWCOWv2UVM_descriptor_witness:
  "createWCOWv2UVM imageInB threeLayers =
     ([EvStat (''A'' @ backslash @ ''UtilityVM''),
       EvStat (''B'' @ backslash @ ''UtilityVM''),
       EvStat ''S'',
       EvCopyFile (''B'' @ backslash @ ''UtilityVM'' @ backslash @ ''SystemTemplate.vhdx'')
         (''S'' @ backslash @ ''sandbox.vhdx'') True,
       EvGrantVmAccess ''uvm'' (''S'' @ backslash @ ''sandbox.vhdx''),
       EvCreateContainer ''uvm''
         (createWCOWv2UVM_document imageInB threeLayers ''S'' ''B'' 1024 2)
         ''{}'' \<lparr>Major = 2, Minor = 0\<rparr>],
      Return \<lparr>hostPath = (\<lambda>_. [])((0, 0) := ''S'' @ backslash @ ''sandbox.vhdx''),
              operatingSystem = ''windows''\<rparr>)
   \<and> (\<exists>s w uvmFolder tr1 tr2 uvm uvmb c0 vm chipset uefi boot topology memory processor
            devices scsi att share gi.
           Spec threeLayers = Some s \<and> Windows s = Some w
         \<and> createWCOWv2UVM_checks threeLayers = Return ()
         \<and> LocateWCOWUVMFolderFromLayerFolders imageInB (LayerFolders w) = (tr1, Return uvmFolder)
         \<and> ((IsNotExist (Stat imageInB (last (LayerFolders w)))
                \<and> MkdirAll imageInB (last (LayerFolders w)) 511 = None
                \<and> tr2 = [EvStat (last (LayerFolders w)),
                          EvMkdirAll (last (LayerFolders w)) 511])
             \<or> (\<not> IsNotExist (Stat imageInB (last (LayerFolders w)))
                \<and> tr2 = [EvStat (last (LayerFolders w))]))
         \<and> CopyFile imageInB
               (Join imageInB uvmFolder (''UtilityVM'' @ backslash @ ''SystemTemplate.vhdx''))
               (Join imageInB (last (LayerFolders w)) ''sandbox.vhdx'') True = None
         \<and> GrantVmAccess imageInB (actualId threeLayers)
               (Join imageInB (last (LayerFolders w)) ''sandbox.vhdx'') = None
         \<and> Marshal imageInB uvm = Inr uvmb
         \<and> createContainer imageInB (actualId threeLayers) uvmb (SchemaV20 imageInB) = Inr c0
         \<and> 
           [EvStat (''A'' @ backslash @ ''UtilityVM''),
       EvStat (''B'' @ backslash @ ''UtilityVM''),
       EvStat ''S'',
       EvCopyFile (''B'' @ backslash @ ''UtilityVM'' @ backslash @ ''SystemTemplate.vhdx'')
         (''S'' @ backslash @ ''sandbox.vhdx'') True,
       EvGrantVmAccess ''uvm'' (''S'' @ backslash @ ''sandbox.vhdx''),
       EvCreateContainer ''uvm''
         (createWCOWv2UVM_document imageInB threeLayers ''S'' ''B'' 1024 2)
         ''{}'' \<lparr>Major = 2, Minor = 0\<rparr>] = tr1 @ tr2 @
             [EvCopyFile
                (Join imageInB uvmFolder (''UtilityVM'' @ backslash @ ''SystemTemplate.vhdx''))
                (Join imageInB (last (LayerFolders w)) ''sandbox.vhdx'') True,
              EvGrantVmAccess (actualId threeLayers) (Join imageInB (last (LayerFolders w)) ''sandbox.vhdx''),
              EvCreateContainer (actualId threeLayers) uvm uvmb (SchemaV20 imageInB)]
         \<and> 
           \<lparr>hostPath = (\<lambda>_. [])((0, 0) := ''S'' @ backslash @ ''sandbox.vhdx''),
              operatingSystem = ''windows''\<rparr> = c0\<lparr>hostPath := (hostPath c0)
                       ((0, 0) := Join imageInB (last (LayerFolders w)) ''sandbox.vhdx''),
                     operatingSystem := ''windows''\<rparr>
         \<and> Owner uvm = actualOwner threeLayers
         \<and> SchemaVersion uvm = actualSchemaVersion threeLayers
         \<and> VirtualMachine uvm = Some vm
         \<and> Chipset vm = Some chipset \<and> UEFI chipset = Some uefi \<and> BootThis uefi = Some boot
         \<and> DevicePath boot =
             backslash @ ''EFI'' @ backslash @ ''Microsoft'' @ backslash @ ''Boot''
               @ backslash @ ''bootmgfw.efi''
         \<and> DiskNumber boot = 0 \<and> UefiDevice boot = ''VMBFS''
         \<and> ComputeTopology vm = Some topology
         \<and> VirtualMachinesResourcesComputeTopologyV2.Memory topology = Some memory
         \<and> Backing memory = ''Virtual''
         \<and> Startup memory = fst (createWCOWv2UVM_resources imageInB w)
         \<and> DirectFileMappingMB memory = 1024
         \<and> Processor topology = Some processor
         \<and> VirtualMachinesResourcesComputeProcessorV2.Count processor =
             snd (createWCOWv2UVM_resources imageInB w)
         \<and> Devices vm = Some devices
         \<and> dom (SCSI devices) = {''0''} \<and> SCSI devices ''0'' = Some scsi
         \<and> dom (Attachments scsi) = {''0''} \<and> Attachments scsi ''0'' = Some att
         \<and> VirtualMachinesResourcesStorageAttachmentV2.Path att =
             Join imageInB (last (LayerFolders w)) ''sandbox.vhdx''
         \<and> Type att = ''VirtualDisk''
         \<and> VirtualSMBShares devices = [share]
         \<and> Name share = ''os''
         \<and> Path share = Join imageInB uvmFolder (''UtilityVM'' @ backslash @ ''Files'')
         \<and> Flags share =
             VsmbFlagReadOnly imageInB OR VsmbFlagPseudoOplocks imageInB
               OR VsmbFlagTakeBackupPrivilege imageInB OR VsmbFlagCacheIO imageInB
               OR VsmbFlagShareRead imageInB
         \<and> GuestInterface devices = Some gi \<and> ConnectToBridge gi)"
proof -
  have run: "createWCOWv2UVM imageInB threeLayers =
     ([EvStat (''A'' @ backslash @ ''UtilityVM''),
       EvStat (''B'' @ backslash @ ''UtilityVM''),
       EvStat ''S'',
       EvCopyFile (''B'' @ backslash @ ''UtilityVM'' @ backslash @ ''SystemTemplate.vhdx'')
         (''S'' @ backslash @ ''sandbox.vhdx'') True,
       EvGrantVmAccess ''uvm'' (''S'' @ backslash @ ''sandbox.vhdx''),
       EvCreateContainer ''uvm''
         (createWCOWv2UVM_document imageInB threeLayers ''S'' ''B'' 1024 2)
         ''{}'' \<lparr>Major = 2, Minor = 0\<rparr>],
      Return \<lparr>hostPath = (\<lambda>_. [])((0, 0) := ''S'' @ backslash @ ''sandbox.vhdx''),
              operatingSystem = ''windows''\<rparr>)"
    by (simp add: createWCOWv2UVM_def andThen_def wrapError_def createWCOWv2UVM_checks_def
        LocateWCOWUVMFolderFromLayerFolders_def createWCOWv2UVM_sandboxFolder_def
        CreateWCOWUVMSandbox_def createWCOWv2UVM_create_def createWCOWv2UVM_attachments_def
        createWCOWv2UVM_resources_def imageInB_def threeLayers_def host_def fileSystem_def
        optionsOf_def specOf_def windowsOf_def backslash_def Let_def)
  from run createWCOWv2UVM_descriptor [OF run] show ?thesis
    by (rule conjI)
qed

subsection \<open>The resources for capacity planning\<close>

lemma roundUp512_alt:
  "roundUp512 n = (if n mod 512 > 0 then n + (512 - n mod 512) else n)"
proof -
  define q where "q = n div 512"
  define r where "r = n mod 512"
  have n: "n = q * 512 + r" and r: "r < 512"
    by (simp_all add: q_def r_def)
  show ?thesis
  proof (cases "r = 0")
    case True
    then have "(n + 511) div 512 = q" using n by simp
    with True n show ?thesis by (simp add: roundUp512_def r_def [symmetric])
  next
    case False
    then have "n + 511 = (q + 1) * 512 + (r - 1)" using n by simp
    moreover have "r - 1 < 512" using r by simp
    ultimately have "(n + 511) div 512 = q + 1"
      by (metis div_mult_self3 div_less add.commute add_cancel_left_left zero_neq_numeral)
    with False n r show ?thesis by (simp add: roundUp512_def r_def [symmetric])
  qed
qed

lemma roundUp512_le: "roundUp512 n \<le> n + 511"
  by (simp add: roundUp512_def)

lemma headroom_round_unat:
  fixes x :: uint64
  assumes "unat x \<le> 2 ^ 44"
  shows "unat (if (x + 256) mod 512 > 0 then (x + 256) + (512 - ((x + 256) mod 512)) else x + 256)
           = roundUp512 (unat x + 256)"
proof -
  define y where "y = x + 256"
  have y: "unat y = unat x + 256"
    unfolding y_def using assms(1) by (simp add: unat_add_lem [THEN iffD1])
  have m: "unat (y mod 512) = (unat x + 256) mod 512"
    by (simp add: unat_mod y)
  have lt: "(y mod 512 > 0) = ((unat x + 256) mod 512 > 0)"
    by (simp add: word_less_nat_alt m)
  have le: "y mod 512 \<le> 512"
    by (simp add: word_le_nat_alt m)
  have s: "unat (512 - y mod 512) = 512 - (unat x + 256) mod 512"
    using le by (simp add: unat_sub m)
  have a: "unat (y + (512 - y mod 512)) = unat x + 256 + (512 - (unat x + 256) mod 512)"
    using assms(1) by (simp add: unat_add_lem [THEN iffD1] y s)
  show ?thesis
    unfolding y_def [symmetric] by (simp add: roundUp512_alt lt a y)
qed

lemma unat_div_MB:
  fixes l :: uint64
  shows "unat (l div 1024 div 1024) = unat l div 1048576"
  by (simp add: unat_div div_mult2_eq)

lemma unat_div_MB_le:
  fixes l :: uint64
  shows "unat (l div 1024 div 1024) \<le> 2 ^ 44"
proof -
  have "unat l < 2 ^ 64" using unsigned_less [of l] by simp
  then show ?thesis unfolding unat_div_MB by simp
qed

lemma unat_times_MB:
  fixes m :: uint64
  shows "unat (m * 1024 * 1024) = (unat m * 1048576) mod 2 ^ 64"
  by (simp add: unat_word_ariths mult.assoc)

text \<open>The memory that lines 67 to 73 compute from the megabytes \<open>x\<close>.\<close>

lemma planning_bytes:
  fixes x :: uint64
  assumes "unat x \<le> 2 ^ 44"
  shows "unat ((if (x + 256) mod 512 > 0 then (x + 256) + (512 - ((x + 256) mod 512)) else x + 256)
           * 1024 * 1024) = roundUp512 (unat x + 256) * 1048576 mod 2 ^ 64"
  unfolding unat_times_MB headroom_round_unat [OF assms] ..

lemma UVMResources_unfold:
  assumes "Windows s = Some w" and "\<not> memoryBlockMissing w"
  shows "UVMResourcesFromContainerSpec env (Some s) =
     Return \<lparr>WindowsResources.Memory = Some \<lparr>Limit = Some
               (let x = (case specMemoryLimit w of None \<Rightarrow> 512 | Some l \<Rightarrow> l div 1024 div 1024)
                in (if (x + 256) mod 512 > 0 then (x + 256) + (512 - ((x + 256) mod 512))
                    else x + 256) * 1024 * 1024)\<rparr>,
             CPU = Some \<lparr>WindowsCPUResources.Count = Some
               (case specCPUCount w of Some n \<Rightarrow> n | None \<Rightarrow> if numCPU env = 1 then 1 else 2),
               Shares = None, Maximum = None\<rparr>,
             Storage = None\<rparr>"
  using assms
  by (auto simp add: UVMResourcesFromContainerSpec_def memoryBlockMissing_def
      specMemoryLimit_def specCPUCount_def Let_def split: option.splits)

lemma planningBase_word:
  "unat (case specMemoryLimit w of None \<Rightarrow> (512 :: uint64) | Some l \<Rightarrow> l div 1024 div 1024)
     = planningBaseMB w"
  by (simp add: planningBaseMB_def unat_div_MB split: option.splits)

lemma planningBase_le: "planningBaseMB w \<le> 2 ^ 44"
  using unat_div_MB_le by (simp add: planningBaseMB_def unat_div_MB [symmetric] split: option.splits)

text \<open>
  C1, as the code has it. For a specification with its Windows section, whose resource
  block is absent or has its memory block, \<^verbatim>\<open>UVMResourcesFromContainerSpec\<close> returns
  a memory limit in bytes that is: the stated limit in whole megabytes, or 512 when no
  limit is stated; plus 256; rounded up to the next multiple of 512; times
  \<open>1024 * 1024\<close> in \<^verbatim>\<open>uint64\<close>, that is modulo \<open>2 ^ 64\<close>. The product does not
  wrap when the starting megabytes plus 768 are at most \<open>2 ^ 44\<close>.
\<close>

theorem UVMResources_memory:
  assumes "Windows s = Some w" and "\<not> memoryBlockMissing w"
  shows "\<exists>res m b.
           UVMResourcesFromContainerSpec env (Some s) = Return res
         \<and> WindowsResources.Memory res = Some m \<and> Limit m = Some b
         \<and> unat b = roundUp512 (planningBaseMB w + 256) * 1048576 mod 2 ^ 64
         \<and> (planningBaseMB w + 768 \<le> 2 ^ 44 \<longrightarrow>
              unat b = roundUp512 (planningBaseMB w + 256) * 1048576)"
proof -
  define x :: uint64 where
    "x = (case specMemoryLimit w of None \<Rightarrow> 512 | Some l \<Rightarrow> l div 1024 div 1024)"
  define b :: uint64 where
    "b = (if (x + 256) mod 512 > 0 then (x + 256) + (512 - ((x + 256) mod 512)) else x + 256)
           * 1024 * 1024"
  have ux: "unat x = planningBaseMB w"
    unfolding x_def by (rule planningBase_word)
  have le: "unat x \<le> 2 ^ 44"
    unfolding ux by (rule planningBase_le)
  have ub: "unat b = roundUp512 (planningBaseMB w + 256) * 1048576 mod 2 ^ 64"
    unfolding b_def planning_bytes [OF le] ux ..
  have nowrap: "roundUp512 (planningBaseMB w + 256) * 1048576 < 2 ^ 64"
    if "planningBaseMB w + 768 \<le> 2 ^ 44"
  proof -
    have "roundUp512 (planningBaseMB w + 256) \<le> planningBaseMB w + 256 + 511"
      by (rule roundUp512_le)
    also have "\<dots> < 2 ^ 44" using that by simp
    finally have "roundUp512 (planningBaseMB w + 256) * 1048576 < 2 ^ 44 * 1048576"
      by simp
    then show ?thesis by simp
  qed
  have "UVMResourcesFromContainerSpec env (Some s) =
     Return \<lparr>WindowsResources.Memory = Some \<lparr>Limit = Some b\<rparr>,
             CPU = Some \<lparr>WindowsCPUResources.Count = Some
               (case specCPUCount w of Some n \<Rightarrow> n | None \<Rightarrow> if numCPU env = 1 then 1 else 2),
               Shares = None, Maximum = None\<rparr>,
             Storage = None\<rparr>"
    unfolding UVMResources_unfold [OF assms] b_def x_def Let_def ..
  with ub nowrap show ?thesis by auto
qed

theorem UVMResources_memory_witness:
  "(\<exists>res m b.
       UVMResourcesFromContainerSpec (host 2 (fileSystem [] []))
         (Some (specOf (Some (windowsOf [] (Some (memoryOf (Some 0))))))) = Return res
     \<and> WindowsResources.Memory res = Some m \<and> Limit m = Some b
     \<and> unat b = 512 * 1048576)
   \<and> (\<exists>res m b.
       UVMResourcesFromContainerSpec (host 2 (fileSystem [] []))
         (Some (specOf (Some (windowsOf [] (Some (memoryOf (Some (768 * 1048576)))))))) = Return res
     \<and> WindowsResources.Memory res = Some m \<and> Limit m = Some b
     \<and> unat b = 1024 * 1048576)
   \<and> (\<exists>res m b.
       UVMResourcesFromContainerSpec (host 2 (fileSystem [] []))
         (Some (specOf (Some (windowsOf [] (Some (memoryOf (Some 1048576))))))) = Return res
     \<and> WindowsResources.Memory res = Some m \<and> Limit m = Some b
     \<and> unat b = 512 * 1048576)
   \<and> (\<exists>res m b.
       UVMResourcesFromContainerSpec (host 2 (fileSystem [] []))
         (Some (specOf (Some (windowsOf [] None)))) = Return res
     \<and> WindowsResources.Memory res = Some m \<and> Limit m = Some b
     \<and> unat b = 1024 * 1048576)"
proof -
  have w: "Windows (specOf (Some (windowsOf [] r))) = Some (windowsOf [] r)" for r
    by (simp add: specOf_def)
  have m: "\<not> memoryBlockMissing (windowsOf [] (Some (memoryOf l)))" for l
    by (simp add: memoryBlockMissing_def windowsOf_def memoryOf_def)
  have n: "\<not> memoryBlockMissing (windowsOf [] None)"
    by (simp add: memoryBlockMissing_def windowsOf_def)
  have b: "planningBaseMB (windowsOf [] (Some (memoryOf (Some l)))) = unat l div 1048576" for l
    by (simp add: planningBaseMB_def specMemoryLimit_def windowsOf_def memoryOf_def)
  have b0: "planningBaseMB (windowsOf [] None) = 512"
    by (simp add: planningBaseMB_def specMemoryLimit_def windowsOf_def)
  show ?thesis
    using UVMResources_memory [OF w m [of "Some 0"], where env = "host 2 (fileSystem [] [])"]
      UVMResources_memory [OF w m [of "Some (768 * 1048576)"],
        where env = "host 2 (fileSystem [] [])"]
      UVMResources_memory [OF w m [of "Some 1048576"], where env = "host 2 (fileSystem [] [])"]
      UVMResources_memory [OF w n, where env = "host 2 (fileSystem [] [])"]
    unfolding b b0 by (simp add: roundUp512_def)
qed

text \<open>
  C1 as stated fails where no limit is stated: \<^verbatim>\<open>uvmMemoryMB\<close> starts from 512 (line
  50), not from 0, and the result is 1024 MB, not 512 MB.
\<close>

theorem UVMResources_memory_counterexample:
  "UVMResourcesFromContainerSpec (host 2 (fileSystem [] []))
     (Some (specOf (Some (windowsOf [] (Some (memoryOf None)))))) =
   Return \<lparr>WindowsResources.Memory = Some \<lparr>Limit = Some (1024 * 1048576)\<rparr>,
           CPU = Some \<lparr>WindowsCPUResources.Count = Some 2, Shares = None, Maximum = None\<rparr>,
           Storage = None\<rparr>
   \<and> (1024 * 1048576 :: uint64) \<noteq> 512 * 1048576"
  by (simp add: UVMResourcesFromContainerSpec_def specOf_def windowsOf_def memoryOf_def
      host_def Let_def)

text \<open>
  C7 fails on the code. Line 42 tests \<^verbatim>\<open>spec == nil && spec.Linux != nil\<close>: a nil
  specification is dereferenced there, and a specification for Linux never meets the
  test, so one that also has a Windows section is given resources. Only the absence of
  the Windows section of a specification that is there is answered with an error.
\<close>

theorem UVMResources_nil_and_linux:
  "UVMResourcesFromContainerSpec (host 2 (fileSystem [] [])) None = Panic
   \<and> UVMResourcesFromContainerSpec (host 2 (fileSystem [] []))
       (Some ((specOf (Some (windowsOf [] None)))\<lparr>Linux := Some \<lparr>CgroupsPath = []\<rparr>\<rparr>)) =
     Return \<lparr>WindowsResources.Memory = Some \<lparr>Limit = Some (1024 * 1048576)\<rparr>,
             CPU = Some \<lparr>WindowsCPUResources.Count = Some 2, Shares = None, Maximum = None\<rparr>,
             Storage = None\<rparr>
   \<and> UVMResourcesFromContainerSpec (host 2 (fileSystem [] []))
       (Some ((specOf None)\<lparr>Linux := Some \<lparr>CgroupsPath = []\<rparr>\<rparr>)) =
     Fail (Errorf ''invalid spec'')
   \<and> UVMResourcesFromContainerSpec (host 2 (fileSystem [] [])) (Some (specOf None)) =
     Fail (Errorf ''invalid spec'')"
  by (simp add: UVMResourcesFromContainerSpec_def specOf_def windowsOf_def host_def Let_def)

text \<open>
  C10. When the resource block of the specification is there and its memory block is
  not, \<^verbatim>\<open>UVMResourcesFromContainerSpec\<close> dereferences nil at line 62 and returns
  nothing. The derivation in \<^verbatim>\<open>createWCOWv2UVM\<close> tests the memory block first (line
  173): on the same Windows section it keeps the 1024 MB it starts from, and a run of
  \<^verbatim>\<open>createWCOWv2UVM\<close> on such a specification does not panic.
\<close>

theorem UVMResources_memory_block_nil:
  assumes "Windows s = Some w" and "memoryBlockMissing w"
  shows "UVMResourcesFromContainerSpec env (Some s) = Panic
       \<and> fst (createWCOWv2UVM_resources env w) = 1024
       \<and> (Spec coi = Some s \<longrightarrow> snd (createWCOWv2UVM env coi) \<noteq> Panic)"
proof -
  have "UVMResourcesFromContainerSpec env (Some s) = Panic"
    using assms
    by (auto simp add: UVMResourcesFromContainerSpec_def memoryBlockMissing_def Let_def
        split: option.splits)
  moreover have "fst (createWCOWv2UVM_resources env w) = 1024"
    using assms(2)
    by (auto simp add: createWCOWv2UVM_resources_def memoryBlockMissing_def Let_def
        split: option.splits)
  moreover have "snd (createWCOWv2UVM env coi) \<noteq> Panic" if "Spec coi = Some s"
    unfolding createWCOWv2UVM_Panic checks_unfold [OF that assms(1)] by simp
  ultimately show ?thesis by simp
qed

theorem UVMResources_memory_block_nil_witness:
  "Windows (specOf (Some (windowsOf [''B'', ''S'']
       (Some \<lparr>WindowsResources.Memory = None, CPU = None, Storage = None\<rparr>))))
     = Some (windowsOf [''B'', ''S'']
         (Some \<lparr>WindowsResources.Memory = None, CPU = None, Storage = None\<rparr>))
   \<and> memoryBlockMissing (windowsOf [''B'', ''S'']
         (Some \<lparr>WindowsResources.Memory = None, CPU = None, Storage = None\<rparr>))
   \<and> UVMResourcesFromContainerSpec (host 2 (fileSystem [] []))
       (Some (specOf (Some (windowsOf [''B'', ''S'']
         (Some \<lparr>WindowsResources.Memory = None, CPU = None, Storage = None\<rparr>))))) = Panic
   \<and> fst (createWCOWv2UVM_resources (host 2 (fileSystem [] []))
       (windowsOf [''B'', ''S'']
         (Some \<lparr>WindowsResources.Memory = None, CPU = None, Storage = None\<rparr>))) = 1024
   \<and> snd (createWCOWv2UVM (host 2 (fileSystem [] []))
       (optionsOf (Some (specOf (Some (windowsOf [''B'', ''S'']
         (Some \<lparr>WindowsResources.Memory = None, CPU = None, Storage = None\<rparr>))))))) \<noteq> Panic"
proof -
  have w: "Windows (specOf (Some (windowsOf [''B'', ''S'']
       (Some \<lparr>WindowsResources.Memory = None, CPU = None, Storage = None\<rparr>))))
     = Some (windowsOf [''B'', ''S'']
         (Some \<lparr>WindowsResources.Memory = None, CPU = None, Storage = None\<rparr>))"
    by (simp add: specOf_def)
  have m: "memoryBlockMissing (windowsOf [''B'', ''S'']
         (Some \<lparr>WindowsResources.Memory = None, CPU = None, Storage = None\<rparr>))"
    by (simp add: memoryBlockMissing_def windowsOf_def)
  show ?thesis
    using w m UVMResources_memory_block_nil [OF w m, where env = "host 2 (fileSystem [] [])"
        and coi = "optionsOf (Some (specOf (Some (windowsOf [''B'', ''S'']
         (Some \<lparr>WindowsResources.Memory = None, CPU = None, Storage = None\<rparr>)))))"]
    by (simp add: optionsOf_def)
qed

subsection \<open>The resources of the virtual machine\<close>

text \<open>The conversion \<^verbatim>\<open>int32(x)\<close> of a \<^verbatim>\<open>uint64\<close> keeps the low 32 bits.\<close>

lemma unat_ucast_64_32:
  fixes x :: uint64
  shows "unat (ucast x :: int32) = unat x mod 2 ^ 32"
proof -
  have "unat (ucast x :: int32) = take_bit LENGTH(32) (unat x)"
    by (rule unsigned_ucast_eq)
  also have "\<dots> = unat x mod 2 ^ LENGTH(32)"
    by (rule take_bit_eq_mod)
  finally show ?thesis
    by (simp only: len_bit0 len_num1 mult_1_right mult_numeral_left_semiring_numeral
        numeral_times_numeral semiring_norm)
qed

lemma sint_small:
  fixes y :: int32
  assumes "unat y < 2 ^ 31"
  shows "sint y = int (unat y)"
proof -
  from assms have "int (unat y) < int (2 ^ 31)"
    by (rule iffD2 [OF of_nat_less_iff])
  also have "int (2 ^ 31) = 2 ^ 31" by simp
  finally have u: "uint y < 2 ^ 31" by (simp only: uint_nat)
  have z: "- (2 ^ 31) \<le> uint y"
  proof -
    have "(0::int) \<le> uint y" by (rule unsigned_greater_eq)
    moreover have "- (2 ^ 31) \<le> (0::int)" by simp
    ultimately show ?thesis by (rule order_trans [rotated])
  qed
  have "sint y = signed_take_bit (LENGTH(32) - Suc 0) (uint y)"
    by (rule sint_uint)
  also have "LENGTH(32) - Suc 0 = 31" by simp
  also have "signed_take_bit 31 (uint y) = uint y"
    using z u by (rule signed_take_bit_int_eq_self)
  also have "uint y = int (unat y)" by (rule uint_nat)
  finally show ?thesis .
qed

lemma sint_ucast_small:
  fixes x :: uint64
  assumes "unat x < 2 ^ 31"
  shows "sint (ucast x :: int32) = int (unat x)"
proof -
  have "unat x < 2 ^ 32" using assms by simp
  then have e: "unat (ucast x :: int32) = unat x"
    unfolding unat_ucast_64_32 by (rule mod_less)
  have "sint (ucast x :: int32) = int (unat (ucast x :: int32))"
    by (rule sint_small) (simp only: e assms)
  then show ?thesis by (simp only: e)
qed

text \<open>Lines 167 to 179 in terms of what the specification states.\<close>

lemma launch_resources_unfold:
  "createWCOWv2UVM_resources env w =
     (case specMemoryLimit w of None \<Rightarrow> 1024 | Some l \<Rightarrow> ucast (l div 1024 div 1024),
      case specCPUCount w of None \<Rightarrow> if numCPU env = 1 then 1 else 2 | Some n \<Rightarrow> ucast n)"
  by (simp add: createWCOWv2UVM_resources_def specMemoryLimit_def specCPUCount_def Let_def
      split: option.splits)

lemma launch_memory_unat:
  assumes "specMemoryLimit w = Some l"
  shows "unat (fst (createWCOWv2UVM_resources env w)) = unat l div 1048576 mod 2 ^ 32"
  unfolding launch_resources_unfold fst_conv assms option.case unat_ucast_64_32 unat_div_MB ..

text \<open>
  C4, as the code has it. The memory of the virtual machine is 1024 MB when the
  specification states no limit. A stated limit of \<open>l\<close> bytes replaces it by \<open>l\<close> divided
  by \<open>1024 * 1024\<close> (integer division, nothing added, nothing rounded up) converted to
  \<^verbatim>\<open>int32\<close>, which keeps the low 32 bits: below \<open>2 ^ 51\<close> bytes the memory is the
  quotient itself.
\<close>

theorem launch_memory:
  "(specMemoryLimit w = None \<longrightarrow> fst (createWCOWv2UVM_resources env w) = 1024)
   \<and> (\<forall>l. specMemoryLimit w = Some l \<longrightarrow>
          unat (fst (createWCOWv2UVM_resources env w)) = unat l div 1048576 mod 2 ^ 32
        \<and> (unat l < 2 ^ 51 \<longrightarrow>
             sint (fst (createWCOWv2UVM_resources env w)) = int (unat l div 1048576)))"
proof (intro conjI allI impI)
  assume "specMemoryLimit w = None"
  then show "fst (createWCOWv2UVM_resources env w) = 1024"
    by (simp add: launch_resources_unfold)
next
  fix l assume "specMemoryLimit w = Some l"
  then show "unat (fst (createWCOWv2UVM_resources env w)) = unat l div 1048576 mod 2 ^ 32"
    by (rule launch_memory_unat)
next
  fix l assume l: "specMemoryLimit w = Some l" and small: "unat l < 2 ^ 51"
  have "unat l < 2147483648 * 1048576" using small by simp
  then have "unat l div 1048576 < 2147483648"
    by (rule less_mult_imp_div_less)
  then have "unat (l div 1024 div 1024) < 2 ^ 31"
    unfolding unat_div_MB by simp
  then have "sint (ucast (l div 1024 div 1024) :: int32) = int (unat (l div 1024 div 1024))"
    by (rule sint_ucast_small)
  then show "sint (fst (createWCOWv2UVM_resources env w)) = int (unat l div 1048576)"
    unfolding launch_resources_unfold fst_conv l option.case unat_div_MB .
qed

theorem launch_memory_witness:
  "specMemoryLimit (windowsOf [] None) = None
   \<and> fst (createWCOWv2UVM_resources (host 2 (fileSystem [] [])) (windowsOf [] None)) = 1024
   \<and> specMemoryLimit (windowsOf [] (Some (memoryOf (Some 2147483648)))) = Some 2147483648
   \<and> unat (2147483648 :: uint64) < 2 ^ 51
   \<and> sint (fst (createWCOWv2UVM_resources (host 2 (fileSystem [] []))
              (windowsOf [] (Some (memoryOf (Some 2147483648)))))) = 2048"
proof -
  have n: "specMemoryLimit (windowsOf [] None) = None"
    by (simp add: specMemoryLimit_def windowsOf_def)
  have s: "specMemoryLimit (windowsOf [] (Some (memoryOf (Some 2147483648)))) = Some 2147483648"
    by (simp add: specMemoryLimit_def windowsOf_def memoryOf_def)
  have u: "unat (2147483648 :: uint64) < 2 ^ 51"
    by simp
  have "fst (createWCOWv2UVM_resources (host 2 (fileSystem [] [])) (windowsOf [] None)) = 1024"
    using launch_memory [where w = "windowsOf [] None" and env = "host 2 (fileSystem [] [])",
        THEN conjunct1] n
    by (rule mp)
  moreover
  have "sint (fst (createWCOWv2UVM_resources (host 2 (fileSystem [] []))
              (windowsOf [] (Some (memoryOf (Some 2147483648)))))) =
        int (unat (2147483648 :: uint64) div 1048576)"
    using launch_memory [where w = "windowsOf [] (Some (memoryOf (Some 2147483648)))"
        and env = "host 2 (fileSystem [] [])", THEN conjunct2, THEN spec, THEN mp, OF s,
        THEN conjunct2, THEN mp, OF u] .
  ultimately show ?thesis
    using n s u by simp
qed

text \<open>
  C4 as stated fails for a limit of \<open>2 ^ 52\<close> bytes: the quotient is \<open>2 ^ 32\<close> MB and
  the memory, an \<^verbatim>\<open>int32\<close>, is 0.
\<close>

theorem launch_memory_counterexample:
  "unat (fst (createWCOWv2UVM_resources (host 2 (fileSystem [] []))
            (windowsOf [] (Some (memoryOf (Some 4503599627370496)))))) = 0
   \<and> unat (4503599627370496 :: uint64) div 1048576 = 4294967296"
proof -
  have s: "specMemoryLimit (windowsOf [] (Some (memoryOf (Some 4503599627370496))))
             = Some 4503599627370496"
    by (simp add: specMemoryLimit_def windowsOf_def memoryOf_def)
  have q: "unat (4503599627370496 :: uint64) div 1048576 = 4294967296"
    by simp
  have "unat (fst (createWCOWv2UVM_resources (host 2 (fileSystem [] []))
            (windowsOf [] (Some (memoryOf (Some 4503599627370496)))))) =
        unat (4503599627370496 :: uint64) div 1048576 mod 2 ^ 32"
    using s by (rule launch_memory_unat)
  also have "\<dots> = 0"
    unfolding q by simp
  finally show ?thesis
    using q by (rule conjI)
qed

text \<open>
  C5, as the code has it. In \<^verbatim>\<open>UVMResourcesFromContainerSpec\<close>, for a specification
  with its Windows section whose resource block is absent or has its memory block, and
  in the derivation of \<^verbatim>\<open>createWCOWv2UVM\<close>, the processor count is decided by the
  count that the specification states, whatever the host reports; with no count stated
  it is 1 on a host that reports one logical processor and 2 on any other.
  \<^verbatim>\<open>UVMResourcesFromContainerSpec\<close> returns the stated count itself.
  \<^verbatim>\<open>createWCOWv2UVM\<close> converts it to \<^verbatim>\<open>int32\<close>, which keeps the low 32 bits: a
  stated count below \<open>2 ^ 31\<close> is kept as it is.
\<close>

theorem processors_default_forced_override:
  "(Windows s = Some w \<and> \<not> memoryBlockMissing w \<longrightarrow>
      (\<exists>res c. UVMResourcesFromContainerSpec env (Some s) = Return res \<and> CPU res = Some c
         \<and> WindowsCPUResources.Count c =
             Some (case specCPUCount w of Some n \<Rightarrow> n
                   | None \<Rightarrow> if numCPU env = 1 then 1 else 2)))
   \<and> snd (createWCOWv2UVM_resources env w) =
       (case specCPUCount w of Some n \<Rightarrow> ucast n
        | None \<Rightarrow> if numCPU env = 1 then 1 else 2)
   \<and> (\<forall>n. specCPUCount w = Some n \<and> unat n < 2 ^ 31 \<longrightarrow>
          sint (snd (createWCOWv2UVM_resources env w)) = int (unat n))
   \<and> (\<forall>n. specCPUCount w = Some n \<longrightarrow>
          unat (snd (createWCOWv2UVM_resources env w)) = unat n mod 2 ^ 32)"
proof (intro conjI allI impI)
  assume "Windows s = Some w \<and> \<not> memoryBlockMissing w"
  then have a: "Windows s = Some w" and b: "\<not> memoryBlockMissing w"
    by simp_all
  show "\<exists>res c. UVMResourcesFromContainerSpec env (Some s) = Return res \<and> CPU res = Some c
         \<and> WindowsCPUResources.Count c =
             Some (case specCPUCount w of Some n \<Rightarrow> n
                   | None \<Rightarrow> if numCPU env = 1 then 1 else 2)"
    unfolding UVMResources_unfold [OF a b] by simp
next
  show "snd (createWCOWv2UVM_resources env w) =
       (case specCPUCount w of Some n \<Rightarrow> ucast n
        | None \<Rightarrow> if numCPU env = 1 then 1 else 2)"
    unfolding launch_resources_unfold snd_conv by (simp split: option.splits)
next
  fix n assume "specCPUCount w = Some n \<and> unat n < 2 ^ 31"
  then have n: "specCPUCount w = Some n" and small: "unat n < 2 ^ 31"
    by simp_all
  from small have "sint (ucast n :: int32) = int (unat n)"
    by (rule sint_ucast_small)
  then show "sint (snd (createWCOWv2UVM_resources env w)) = int (unat n)"
    unfolding launch_resources_unfold snd_conv n option.case .
next
  fix n assume n: "specCPUCount w = Some n"
  show "unat (snd (createWCOWv2UVM_resources env w)) = unat n mod 2 ^ 32"
    unfolding launch_resources_unfold snd_conv n option.case unat_ucast_64_32 ..
qed

theorem processors_default_forced_override_witness:
  "(\<exists>res c. UVMResourcesFromContainerSpec (host 1 (fileSystem [] []))
       (Some (specOf (Some (windowsOf [] (Some (countOf 4)))))) = Return res
     \<and> CPU res = Some c \<and> WindowsCPUResources.Count c = Some 4)
   \<and> (\<exists>res c. UVMResourcesFromContainerSpec (host 1 (fileSystem [] []))
       (Some (specOf (Some (windowsOf [] None)))) = Return res
     \<and> CPU res = Some c \<and> WindowsCPUResources.Count c = Some 1)
   \<and> (\<exists>res c. UVMResourcesFromContainerSpec (host 8 (fileSystem [] []))
       (Some (specOf (Some (windowsOf [] None)))) = Return res
     \<and> CPU res = Some c \<and> WindowsCPUResources.Count c = Some 2)
   \<and> snd (createWCOWv2UVM_resources (host 1 (fileSystem [] []))
       (windowsOf [] (Some (countOf 4)))) = 4
   \<and> snd (createWCOWv2UVM_resources (host 1 (fileSystem [] [])) (windowsOf [] None)) = 1
   \<and> snd (createWCOWv2UVM_resources (host 8 (fileSystem [] [])) (windowsOf [] None)) = 2
   \<and> sint (snd (createWCOWv2UVM_resources (host 1 (fileSystem [] []))
       (windowsOf [] (Some (countOf 4))))) = 4"
proof -
  have w: "Windows (specOf (Some (windowsOf [] r))) = Some (windowsOf [] r)" for r
    by (simp add: specOf_def)
  have m: "\<not> memoryBlockMissing (windowsOf [] (Some (countOf 4)))"
    by (simp add: memoryBlockMissing_def windowsOf_def countOf_def)
  have n: "\<not> memoryBlockMissing (windowsOf [] None)"
    by (simp add: memoryBlockMissing_def windowsOf_def)
  have c4: "specCPUCount (windowsOf [] (Some (countOf 4))) = Some 4"
    by (simp add: specCPUCount_def windowsOf_def countOf_def)
  have c0: "specCPUCount (windowsOf [] None) = None"
    by (simp add: specCPUCount_def windowsOf_def)
  have h: "numCPU (host k st) = k" for k st
    by (simp add: host_def)
  show ?thesis
    using processors_default_forced_override [where s = "specOf (Some (windowsOf [] (Some (countOf 4))))"
        and w = "windowsOf [] (Some (countOf 4))" and env = "host 1 (fileSystem [] [])"]
      processors_default_forced_override [where s = "specOf (Some (windowsOf [] None))"
        and w = "windowsOf [] None" and env = "host 1 (fileSystem [] [])"]
      processors_default_forced_override [where s = "specOf (Some (windowsOf [] None))"
        and w = "windowsOf [] None" and env = "host 8 (fileSystem [] [])"]
    unfolding w c4 c0 h by (simp add: m n)
qed

text \<open>
  C5 as stated fails on two inputs. A specification that states a processor count of 4 and
  has no memory block makes \<^verbatim>\<open>UVMResourcesFromContainerSpec\<close> dereference nil at line
  62, after the count was read, and no count is returned. A stated count of \<open>2 ^ 32\<close>
  becomes 0 in \<^verbatim>\<open>createWCOWv2UVM\<close>, where line 177 converts it to \<^verbatim>\<open>int32\<close>.
\<close>

theorem processors_default_forced_override_counterexample:
  "UVMResourcesFromContainerSpec (host 8 (fileSystem [] []))
     (Some (specOf (Some (windowsOf []
        (Some \<lparr>WindowsResources.Memory = None,
                CPU = Some \<lparr>WindowsCPUResources.Count = Some 4, Shares = None,
                            Maximum = None\<rparr>,
                Storage = None\<rparr>))))) = Panic
   \<and> specCPUCount (windowsOf [] (Some (countOf 4294967296))) = Some 4294967296
   \<and> unat (snd (createWCOWv2UVM_resources (host 8 (fileSystem [] []))
        (windowsOf [] (Some (countOf 4294967296))))) = 0"
proof -
  have p: "UVMResourcesFromContainerSpec (host 8 (fileSystem [] []))
     (Some (specOf (Some (windowsOf []
        (Some \<lparr>WindowsResources.Memory = None,
                CPU = Some \<lparr>WindowsCPUResources.Count = Some 4, Shares = None,
                            Maximum = None\<rparr>,
                Storage = None\<rparr>))))) = Panic"
    by (simp add: UVMResourcesFromContainerSpec_def specOf_def windowsOf_def Let_def)
  have c: "specCPUCount (windowsOf [] (Some (countOf 4294967296))) = Some 4294967296"
    by (simp add: specCPUCount_def windowsOf_def countOf_def)
  have "unat (snd (createWCOWv2UVM_resources (host 8 (fileSystem [] []))
        (windowsOf [] (Some (countOf 4294967296))))) = unat (4294967296 :: uint64) mod 2 ^ 32"
    unfolding launch_resources_unfold snd_conv c option.case unat_ucast_64_32 ..
  also have "\<dots> = 0" by simp
  finally show ?thesis
    using p c by simp
qed

end
